theory Spec2Isabelle
  imports Main "HOL-Library.AList"
begin

unbundle bit_operations_syntax

section \<open>The request handlers of the CIB manager (daemons/based/based_messages.c)\<close>

text \<open>
  The handlers of \<^verbatim>\<open>based_messages.c\<close> are embedded as functions from the
  call's arguments and the node's state to an outcome and the next state. The two
  process-wide flags of the file (\<^verbatim>\<open>based_is_primary\<close>, \<^verbatim>\<open>sync_in_progress\<close>)
  and the globals it reads (\<^verbatim>\<open>the_cib\<close>, \<^verbatim>\<open>cib_shutdown_flag\<close>) are the fields
  of the state. What a handler does to the outside world (a log line, a cluster
  message, the request to terminate) is recorded, in program order, in the list of
  effects of its outcome. Calls that only compute the arguments of a log line or print
  a document (\<^verbatim>\<open>cib_diff_version_details\<close>, \<^verbatim>\<open>pcmk__log_xml_patchset\<close>,
  \<^verbatim>\<open>pcmk_strerror\<close>) and the release of memory leave no trace in the model.
  \<^verbatim>\<open>cib_process_commit_transaction\<close>, which only passes its arguments to the
  transaction code of another file, is not embedded.
\<close>

subsection \<open>XML names\<close>

text \<open>
  Modelled from the spec: the attribute and element names of the wire format are
  macros of headers that are not among the sources (\<^verbatim>\<open>PCMK__XA_T\<close>,
  \<^verbatim>\<open>F_CIB_PING_ID\<close>, ...); the spec describes an envelope as "a mapping of named
  fields" and leaves the spelling of the names out. Each macro is a constructor of
  \<open>xml_name\<close>, so two different macros name two different fields, and a name that
  one of these macros gives is always written with its constructor, in requests and
  documents as well. \<open>Name s\<close> is for the other names only: a string literal of the
  program itself (\<^verbatim>\<open>"sync-me"\<close>, \<^verbatim>\<open>"copy"\<close>, \<^verbatim>\<open>__func__\<close>), or a name in a
  request or document that none of the macros gives.
\<close>

datatype xml_name =
    Name string
  | PCMK__XA_T
  | PCMK__XA_SRC
  | PCMK__XA_CIB_CLIENTID
  | PCMK__XA_CIB_CALLOPT
  | PCMK__XA_CIB_CALLID
  | PCMK__XA_CIB_OP
  | PCMK__XA_CIB_ISREPLYTO
  | PCMK__XA_CIB_SECTION
  | PCMK__XA_CIB_HOST
  | PCMK__XA_CIB_RC
  | PCMK__XA_CIB_DELEGATED_FROM
  | PCMK__XA_CIB_OBJECT
  | PCMK__XA_CIB_OBJECT_TYPE
  | F_CIB_TIMEOUT
  | F_CIB_GLOBAL_UPDATE
  | PCMK__XA_CIB_CLIENTNAME
  | F_CIB_USER
  | F_CIB_NOTIFY_TYPE
  | F_CIB_NOTIFY_ACTIVATE
  | PCMK__XA_ORIGINAL_CIB_OP
  | PCMK_XA_CRM_FEATURE_SET
  | PCMK__XA_DIGEST
  | PCMK__XA_CIB_CALLDATA
  | F_CIB_PING_ID
  | F_CIB_SCHEMA_MAX
  | PCMK__XA_CIB_UPGRADE_RC
  | PCMK_XA_VALIDATE_WITH
  | PCMK_XA_VERSION
  | PCMK__XA_SCHEMAS
  | PCMK__XE_PING_RESPONSE
  | PCMK_XE_CIB

subsection \<open>XML elements\<close>

datatype xml = Xml (xname: xml_name) (xattrs: "(xml_name \<times> string) list") (xkids: "xml list")

text \<open>
  Modelled from the spec: the XML helpers (\<^verbatim>\<open>crm/common/xml.h\<close>) are not among the
  sources. An element is its name, its attributes in document order and its children;
  a \<^verbatim>\<open>NULL\<close> string or element is \<open>None\<close>. Adding an attribute with a
  \<^verbatim>\<open>NULL\<close> value adds nothing, setting an attribute that exists replaces its value
  in place, and an embedded payload is the only child of a child element named by the
  field.
\<close>

definition create_xml_node :: "xml_name \<Rightarrow> xml" where
  "create_xml_node n = Xml n [] []"

definition crm_element_value :: "xml \<Rightarrow> xml_name \<Rightarrow> string option" where
  "crm_element_value x n = map_of (xattrs x) n"

definition crm_xml_add :: "xml \<Rightarrow> xml_name \<Rightarrow> string option \<Rightarrow> xml" where
  "crm_xml_add x n v =
     (case v of
        None \<Rightarrow> x
      | Some s \<Rightarrow> Xml (xname x) (AList.update n s (xattrs x)) (xkids x))"

definition xml_remove_prop :: "xml \<Rightarrow> xml_name \<Rightarrow> xml" where
  "xml_remove_prop x n = Xml (xname x) (AList.delete n (xattrs x)) (xkids x)"

definition add_message_xml :: "xml \<Rightarrow> xml_name \<Rightarrow> xml option \<Rightarrow> xml" where
  "add_message_xml msg field x =
     Xml (xname msg) (xattrs msg)
       (xkids msg @ [Xml field [] (case x of None \<Rightarrow> [] | Some d \<Rightarrow> [d])])"

definition get_message_xml :: "xml \<Rightarrow> xml_name \<Rightarrow> xml option" where
  "get_message_xml msg field =
     (case filter (\<lambda>k. xname k = field) (xkids msg) of
        [] \<Rightarrow> None
      | holder # _ \<Rightarrow> (case xkids holder of [] \<Rightarrow> None | d # _ \<Rightarrow> Some d))"

definition pcmk__xe_is :: "xml option \<Rightarrow> xml_name \<Rightarrow> bool" where
  "pcmk__xe_is x n = (case x of None \<Rightarrow> False | Some e \<Rightarrow> xname e = n)"

text \<open>
  \<^verbatim>\<open>pcmk__str_eq(s1, s2, pcmk__str_none)\<close>: two strings are equal when both are
  \<^verbatim>\<open>NULL\<close> or both are the same text.
\<close>

definition pcmk__str_eq :: "string option \<Rightarrow> string option \<Rightarrow> bool" where
  "pcmk__str_eq s1 s2 = (s1 = s2)"

subsection \<open>State, arguments, effects\<close>

record node_state =
  based_is_primary :: bool
  sync_in_progress :: int
  the_cib :: "xml option"
  cib_shutdown_flag :: bool

text \<open>The state of a freshly started process: the initialisers of the globals.\<close>

definition initial_state :: node_state where
  "initial_state =
     \<lparr>based_is_primary = False, sync_in_progress = 0, the_cib = None,
      cib_shutdown_flag = False\<rparr>"

record crm_node =
  uname :: string

datatype crm_ais_msg_types = crm_msg_cib

datatype log_level = LOG_ERR | LOG_WARNING | LOG_NOTICE | LOG_INFO | LOG_DEBUG | LOG_TRACE

text \<open>
  The eight parameters every handler has (\<open>sectn\<close> is the parameter
  \<^verbatim>\<open>section\<close>). \<open>result_cib\<close> and \<open>answer\<close> are what the two output pointers
  hold when the handler is entered.
\<close>

record call =
  op :: "string option"
  options :: int
  sectn :: "string option"
  req :: xml
  input :: "xml option"
  existing_cib :: "xml option"
  result_cib :: "xml option"
  answer :: "xml option"

text \<open>
  A log line is recorded with its level and its format string (the arguments of the
  format and the separator macro \<^verbatim>\<open>CRM_XS\<close> are not recorded); a cluster message
  with its destination (\<open>None\<close> is a broadcast), its class, the envelope and the
  \<^verbatim>\<open>ordered\<close> flag; the call of \<^verbatim>\<open>terminate_cib\<close> with its two arguments; the
  call of a document-engine primitive (\<^verbatim>\<open>cib_process_diff\<close>,
  \<^verbatim>\<open>cib_process_replace\<close>, \<^verbatim>\<open>cib_process_upgrade\<close>) with the name of the
  primitive and the arguments it is given.
\<close>

datatype effect =
    Log log_level string
  | Sent "crm_node option" crm_ais_msg_types xml bool
  | Terminate string int
  | Delegated string call

record outcome =
  rc :: int
  new_result_cib :: "xml option"
  new_answer :: "xml option"
  effects :: "effect list"

subsection \<open>Constants of headers and collaborators\<close>

text \<open>
  The result codes, the operation names and the option bit that the file takes from
  headers outside the sources, and the functions of the libraries and of the other
  files of the daemon that it calls, are parameters of the model: the fields of
  \<open>env\<close>. A document-engine primitive (\<^verbatim>\<open>cib_process_diff\<close>,
  \<^verbatim>\<open>cib_process_replace\<close>, \<^verbatim>\<open>cib_process_upgrade\<close>) maps the arguments of the
  call to its result code and to what it leaves in the two output pointers;
  \<^verbatim>\<open>update_validation\<close> returns its result code together with the document and
  the version it leaves behind its two pointers; \<^verbatim>\<open>send_cluster_message\<close> tells
  whether the message could be sent. \<open>tracing\<close> is the test of
  \<^verbatim>\<open>pcmk__if_tracing\<close>, \<open>crm_cluster_uname\<close> the field \<^verbatim>\<open>crm_cluster->uname\<close>,
  and \<open>pcmk__itoa\<close> the text that \<^verbatim>\<open>crm_xml_add_int\<close> writes for a number.
  \<open>known_schemas\<close> and \<open>schema_includes\<close> are the table of the schema library, used
  where the library is modelled from the spec. \<^verbatim>\<open>MAX_DIFF_RETRY\<close> is defined in the
  file itself, and \<^verbatim>\<open>pcmk_ok\<close> is zero.
\<close>

record env =
  EPERM :: int
  EINVAL :: int
  EPROTO :: int
  ENOTCONN :: int
  pcmk_err_diff_failed :: int
  pcmk_err_diff_resync :: int
  pcmk_err_schema_unchanged :: int
  cib_force_diff :: int
  PCMK__CIB_REQUEST_IS_PRIMARY :: string
  PCMK__CIB_REQUEST_PRIMARY :: string
  PCMK__CIB_REQUEST_SYNC_TO_ONE :: string
  PCMK__CIB_REQUEST_REPLACE :: string
  PCMK__CIB_REQUEST_UPGRADE :: string
  T_CIB :: string
  CRM_FEATURE_SET :: string
  stand_alone :: bool
  crm_cluster_uname :: "string option"
  cib_legacy_mode :: bool
  tracing :: bool
  pcmk__get_node :: "string option \<Rightarrow> crm_node option"
  pcmk__search_node_caches :: "string option \<Rightarrow> crm_node option"
  send_cluster_message :: "crm_node option \<Rightarrow> crm_ais_msg_types \<Rightarrow> xml \<Rightarrow> bool \<Rightarrow> bool"
  calculate_xml_versioned_digest :: "xml option \<Rightarrow> bool \<Rightarrow> bool \<Rightarrow> string \<Rightarrow> string option"
  copy_in_properties :: "xml \<Rightarrow> xml \<Rightarrow> xml"
  pcmk__itoa :: "int \<Rightarrow> string"
  cib_process_diff :: "call \<Rightarrow> int \<times> xml option \<times> xml option"
  cib_process_replace :: "call \<Rightarrow> int \<times> xml option \<times> xml option"
  cib_process_upgrade :: "call \<Rightarrow> int \<times> xml option \<times> xml option"
  update_validation :: "xml option \<Rightarrow> int \<Rightarrow> int \<Rightarrow> bool \<Rightarrow> bool \<Rightarrow> int \<times> xml option \<times> int"
  get_schema_version :: "string \<Rightarrow> int"
  get_schema_name :: "int \<Rightarrow> string option"
  xml_latest_schema :: "string option"
  known_schemas :: "string list"
  schema_includes :: "string \<Rightarrow> string list"

definition pcmk_ok :: int where
  "pcmk_ok = 0"

definition MAX_DIFF_RETRY :: int where
  "MAX_DIFF_RETRY = 5"

text \<open>
  What the headers guarantee and the proofs use: every error number is positive, so
  its negation is not \<open>pcmk_ok\<close>, and the two role operations have different names.
\<close>

definition hdr_ok :: "env \<Rightarrow> bool" where
  "hdr_ok E =
     (0 < EPERM E \<and> 0 < EINVAL E \<and> 0 < EPROTO E \<and> 0 < ENOTCONN E \<and>
      0 < pcmk_err_diff_failed E \<and> 0 < pcmk_err_diff_resync E \<and>
      0 < pcmk_err_schema_unchanged E \<and>
      PCMK__CIB_REQUEST_IS_PRIMARY E \<noteq> PCMK__CIB_REQUEST_PRIMARY E)"

text \<open>
  \<^verbatim>\<open>crm_xml_add_int\<close> writes the text of the number, and
  \<^verbatim>\<open>pcmk__xe_set_bool_attr\<close> writes \<^verbatim>\<open>"true"\<close> or \<^verbatim>\<open>"false"\<close>.
\<close>

definition crm_xml_add_int :: "env \<Rightarrow> xml \<Rightarrow> xml_name \<Rightarrow> int \<Rightarrow> xml" where
  "crm_xml_add_int E x n i = crm_xml_add x n (Some (pcmk__itoa E i))"

definition pcmk__xe_set_bool_attr :: "xml \<Rightarrow> xml_name \<Rightarrow> bool \<Rightarrow> xml" where
  "pcmk__xe_set_bool_attr x n b = crm_xml_add x n (Some (if b then ''true'' else ''false''))"

subsection \<open>Shutdown requests and role requests\<close>

definition cib_process_shutdown_req :: "env \<Rightarrow> call \<Rightarrow> node_state \<Rightarrow> outcome \<times> node_state" where
  "cib_process_shutdown_req E a st =
     (if crm_element_value (req a) PCMK__XA_CIB_ISREPLYTO = None then
        (\<lparr>rc = pcmk_ok, new_result_cib = result_cib a, new_answer = None,
          effects = [Log LOG_INFO ''Peer %s is requesting to shut down'']\<rparr>, st)
      else if \<not> cib_shutdown_flag st then
        (\<lparr>rc = - EINVAL E, new_result_cib = result_cib a, new_answer = None,
          effects = [Log LOG_ERR ''Peer %s mistakenly thinks we wanted to shut down'']\<rparr>, st)
      else
        (\<lparr>rc = pcmk_ok, new_result_cib = result_cib a, new_answer = None,
          effects = [Log LOG_INFO ''Peer %s has acknowledged our shutdown request'',
                     Terminate ''cib_process_shutdown_req'' 0]\<rparr>, st))"

definition cib_process_noop :: "call \<Rightarrow> node_state \<Rightarrow> outcome \<times> node_state" where
  "cib_process_noop a st =
     (\<lparr>rc = pcmk_ok, new_result_cib = result_cib a, new_answer = None,
       effects = [Log LOG_TRACE ''Processing \"%s\" event'']\<rparr>, st)"

definition cib_process_readwrite :: "env \<Rightarrow> call \<Rightarrow> node_state \<Rightarrow> outcome \<times> node_state" where
  "cib_process_readwrite E a st =
     (let tr = [Log LOG_TRACE ''Processing \"%s\" event''] in
      if pcmk__str_eq (op a) (Some (PCMK__CIB_REQUEST_IS_PRIMARY E)) then
        (\<lparr>rc = (if based_is_primary st then pcmk_ok else - EPERM E),
          new_result_cib = result_cib a, new_answer = answer a, effects = tr\<rparr>, st)
      else if pcmk__str_eq (op a) (Some (PCMK__CIB_REQUEST_PRIMARY E)) then
        (if \<not> based_is_primary st then
           (\<lparr>rc = pcmk_ok, new_result_cib = result_cib a, new_answer = answer a,
             effects = tr @ [Log LOG_INFO ''We are now in R/W mode'']\<rparr>,
            st\<lparr>based_is_primary := True\<rparr>)
         else
           (\<lparr>rc = pcmk_ok, new_result_cib = result_cib a, new_answer = answer a,
             effects = tr @ [Log LOG_DEBUG ''We are still in R/W mode'']\<rparr>, st))
      else if based_is_primary st then
        (\<lparr>rc = pcmk_ok, new_result_cib = result_cib a, new_answer = answer a,
          effects = tr @ [Log LOG_INFO ''We are now in R/O mode'']\<rparr>,
         st\<lparr>based_is_primary := False\<rparr>)
      else
        (\<lparr>rc = pcmk_ok, new_result_cib = result_cib a, new_answer = answer a,
          effects = tr\<rparr>, st))"

subsection \<open>Requesting a resync\<close>

definition send_sync_request :: "env \<Rightarrow> string option \<Rightarrow> node_state \<Rightarrow> effect list \<times> node_state" where
  "send_sync_request E host st =
     (let sync_me = create_xml_node (Name ''sync-me'');
          st1 = st\<lparr>sync_in_progress := 1\<rparr>;
          sync_me = crm_xml_add sync_me PCMK__XA_T (Some (T_CIB E));
          sync_me = crm_xml_add sync_me PCMK__XA_CIB_OP (Some (PCMK__CIB_REQUEST_SYNC_TO_ONE E));
          sync_me = crm_xml_add sync_me PCMK__XA_CIB_DELEGATED_FROM
                      (if stand_alone E then Some ''localhost'' else crm_cluster_uname E);
          peer = (if host \<noteq> None then pcmk__get_node E host else None)
      in ([Log LOG_INFO ''Requesting re-sync from %s'',
           Sent peer crm_msg_cib sync_me False], st1))"

subsection \<open>Answering a ping\<close>

definition cib_process_ping :: "env \<Rightarrow> call \<Rightarrow> node_state \<Rightarrow> outcome \<times> node_state" where
  "cib_process_ping E a st =
     (let seq = crm_element_value (req a) F_CIB_PING_ID;
          digest = calculate_xml_versioned_digest E (the_cib st) False True (CRM_FEATURE_SET E);
          ans = create_xml_node PCMK__XE_PING_RESPONSE;
          ans = crm_xml_add ans PCMK_XA_CRM_FEATURE_SET (Some (CRM_FEATURE_SET E));
          ans = crm_xml_add ans PCMK__XA_DIGEST digest;
          ans = crm_xml_add ans F_CIB_PING_ID seq;
          ans = (if tracing E then add_message_xml ans PCMK__XA_CIB_CALLDATA (the_cib st)
                 else (case the_cib st of
                         None \<Rightarrow> ans
                       | Some cib \<Rightarrow>
                           (let shallow = create_xml_node (xname cib);
                                shallow = copy_in_properties E shallow cib
                            in add_message_xml ans PCMK__XA_CIB_CALLDATA (Some shallow))))
      in (\<lparr>rc = pcmk_ok, new_result_cib = result_cib a, new_answer = Some ans,
            effects = [Log LOG_TRACE ''Processing \"%s\" event %s from %s'',
                       Log LOG_INFO ''Reporting our current digest to %s: %s for %s.%s.%s'']\<rparr>,
          st))"

subsection \<open>Sending the whole document\<close>

definition field_list :: "xml_name list" where
  "field_list =
     [PCMK__XA_T, PCMK__XA_CIB_CLIENTID, PCMK__XA_CIB_CALLOPT, PCMK__XA_CIB_CALLID,
      PCMK__XA_CIB_OP, PCMK__XA_CIB_ISREPLYTO, PCMK__XA_CIB_SECTION, PCMK__XA_CIB_HOST,
      PCMK__XA_CIB_RC, PCMK__XA_CIB_DELEGATED_FROM, PCMK__XA_CIB_OBJECT,
      PCMK__XA_CIB_OBJECT_TYPE, F_CIB_TIMEOUT, F_CIB_GLOBAL_UPDATE,
      PCMK__XA_CIB_CLIENTNAME, F_CIB_USER, F_CIB_NOTIFY_TYPE, F_CIB_NOTIFY_ACTIVATE]"

text \<open>The loop of \<^verbatim>\<open>cib_msg_copy\<close> over the fields still to copy.\<close>

fun copy_fields :: "xml \<Rightarrow> xml_name list \<Rightarrow> xml \<Rightarrow> xml" where
  "copy_fields msg [] copy = copy"
| "copy_fields msg (field # more_fields) copy =
     copy_fields msg more_fields
       (case crm_element_value msg field of
          None \<Rightarrow> copy
        | Some v \<Rightarrow> crm_xml_add copy field (Some v))"

definition cib_msg_copy :: "xml \<Rightarrow> xml" where
  "cib_msg_copy msg = copy_fields msg field_list (create_xml_node (Name ''copy''))"

text \<open>
  \<^verbatim>\<open>CRM_CHECK\<close> logs the failed condition as an error and runs its second argument,
  here the return of \<^verbatim>\<open>-EINVAL\<close>.
\<close>

definition sync_our_cib :: "env \<Rightarrow> xml \<Rightarrow> bool \<Rightarrow> node_state \<Rightarrow> int \<times> effect list" where
  "sync_our_cib E request all st =
     (let host = crm_element_value request PCMK__XA_SRC;
          op = crm_element_value request PCMK__XA_CIB_OP
      in if the_cib st = None then (- EINVAL E, [Log LOG_ERR ''the_cib != NULL''])
         else if \<not> (all \<or> host \<noteq> None) then
           (- EINVAL E, [Log LOG_ERR ''all || (host != NULL)''])
         else
           (let replace_request = cib_msg_copy request;
                replace_request =
                  (if host \<noteq> None then crm_xml_add replace_request PCMK__XA_CIB_ISREPLYTO host
                   else replace_request);
                replace_request =
                  (if all then xml_remove_prop replace_request PCMK__XA_CIB_HOST
                   else replace_request);
                replace_request =
                  crm_xml_add replace_request PCMK__XA_CIB_OP (Some (PCMK__CIB_REQUEST_REPLACE E));
                replace_request = crm_xml_add replace_request PCMK__XA_ORIGINAL_CIB_OP op;
                replace_request = pcmk__xe_set_bool_attr replace_request F_CIB_GLOBAL_UPDATE True;
                replace_request =
                  crm_xml_add replace_request PCMK_XA_CRM_FEATURE_SET (Some (CRM_FEATURE_SET E));
                digest = calculate_xml_versioned_digest E (the_cib st) False True (CRM_FEATURE_SET E);
                replace_request = crm_xml_add replace_request PCMK__XA_DIGEST digest;
                replace_request = add_message_xml replace_request PCMK__XA_CIB_CALLDATA (the_cib st);
                peer = (if \<not> all then pcmk__get_node E host else None)
            in ((if \<not> send_cluster_message E peer crm_msg_cib replace_request False
                 then - ENOTCONN E else pcmk_ok),
                [Log LOG_DEBUG ''Syncing CIB to %s'',
                 Sent peer crm_msg_cib replace_request False])))"

definition cib_process_sync :: "env \<Rightarrow> call \<Rightarrow> node_state \<Rightarrow> outcome \<times> node_state" where
  "cib_process_sync E a st =
     (let (r, fx) = sync_our_cib E (req a) True st
      in (\<lparr>rc = r, new_result_cib = result_cib a, new_answer = answer a, effects = fx\<rparr>, st))"

definition cib_process_sync_one :: "env \<Rightarrow> call \<Rightarrow> node_state \<Rightarrow> outcome \<times> node_state" where
  "cib_process_sync_one E a st =
     (let (r, fx) = sync_our_cib E (req a) False st
      in (\<lparr>rc = r, new_result_cib = result_cib a, new_answer = answer a, effects = fx\<rparr>, st))"

subsection \<open>Schema upgrades\<close>

text \<open>
  The two envelopes that \<^verbatim>\<open>cib_process_upgrade_server\<close> builds in place: the upgrade
  instruction for a verified request, and the reply that tells the origin of a
  rejected request the result.
\<close>

definition upgrade_instruction :: "env \<Rightarrow> xml \<Rightarrow> int \<Rightarrow> xml" where
  "upgrade_instruction E request new_version =
     (let host = crm_element_value request PCMK__XA_SRC;
          client_id = crm_element_value request PCMK__XA_CIB_CLIENTID;
          call_opts = crm_element_value request PCMK__XA_CIB_CALLOPT;
          call_id = crm_element_value request PCMK__XA_CIB_CALLID;
          up = create_xml_node (Name ''cib_process_upgrade_server'');
          up = crm_xml_add up PCMK__XA_T (Some (T_CIB E));
          up = crm_xml_add up PCMK__XA_CIB_OP (Some (PCMK__CIB_REQUEST_UPGRADE E));
          up = crm_xml_add up F_CIB_SCHEMA_MAX (get_schema_name E new_version);
          up = crm_xml_add up PCMK__XA_CIB_DELEGATED_FROM host;
          up = crm_xml_add up PCMK__XA_CIB_CLIENTID client_id;
          up = crm_xml_add up PCMK__XA_CIB_CALLOPT call_opts;
          up = crm_xml_add up PCMK__XA_CIB_CALLID call_id
      in up)"

definition upgrade_rejection :: "env \<Rightarrow> xml \<Rightarrow> int \<Rightarrow> xml" where
  "upgrade_rejection E request r =
     (let host = crm_element_value request PCMK__XA_SRC;
          client_id = crm_element_value request PCMK__XA_CIB_CLIENTID;
          call_opts = crm_element_value request PCMK__XA_CIB_CALLOPT;
          call_id = crm_element_value request PCMK__XA_CIB_CALLID;
          up = create_xml_node (Name ''cib_process_upgrade_server'');
          up = crm_xml_add up PCMK__XA_T (Some (T_CIB E));
          up = crm_xml_add up PCMK__XA_CIB_OP (Some (PCMK__CIB_REQUEST_UPGRADE E));
          up = crm_xml_add up PCMK__XA_CIB_DELEGATED_FROM host;
          up = crm_xml_add up PCMK__XA_CIB_ISREPLYTO host;
          up = crm_xml_add up PCMK__XA_CIB_CLIENTID client_id;
          up = crm_xml_add up PCMK__XA_CIB_CALLOPT call_opts;
          up = crm_xml_add up PCMK__XA_CIB_CALLID call_id;
          up = crm_xml_add_int E up PCMK__XA_CIB_UPGRADE_RC r
      in up)"

definition cib_process_upgrade_server :: "env \<Rightarrow> call \<Rightarrow> node_state \<Rightarrow> outcome \<times> node_state" where
  "cib_process_upgrade_server E a st =
     (if crm_element_value (req a) F_CIB_SCHEMA_MAX \<noteq> None then
        (let (r, rcib, ans) = cib_process_upgrade E (a\<lparr>answer := None\<rparr>)
         in (\<lparr>rc = r, new_result_cib = rcib, new_answer = ans,
               effects = [Delegated ''cib_process_upgrade'' (a\<lparr>answer := None\<rparr>)]\<rparr>, st))
      else
        (let scratch = existing_cib a;
             host = crm_element_value (req a) PCMK__XA_SRC;
             validate_with =
               (case existing_cib a of
                  None \<Rightarrow> None
                | Some cib \<Rightarrow> crm_element_value cib PCMK_XA_VALIDATE_WITH);
             tr = [Log LOG_TRACE ''Processing \"%s\" event''];
             current_version =
               (case validate_with of None \<Rightarrow> 0 | Some v \<Rightarrow> get_schema_version E v);
             (vrc, scratch, new_version) = update_validation E scratch 0 0 True True;
             (r, rcib, ans, fx) =
               (if new_version > current_version then
                  (let up = upgrade_instruction E (req a) new_version;
                       note = [Log LOG_NOTICE ''Upgrade request from %s verified'']
                   in if cib_legacy_mode E \<and> based_is_primary st then
                        (let (r2, rcib2, ans2) = cib_process_upgrade E (a\<lparr>req := up, answer := None\<rparr>)
                         in (r2, rcib2, ans2,
                             note @ [Delegated ''cib_process_upgrade'' (a\<lparr>req := up, answer := None\<rparr>)]))
                      else
                        (pcmk_ok, result_cib a, None, note @ [Sent None crm_msg_cib up False]))
                else if vrc = pcmk_ok then
                  (- pcmk_err_schema_unchanged E, result_cib a, None, [])
                else (vrc, result_cib a, None, []));
             fx2 =
               (if r \<noteq> pcmk_ok then
                  (let origin = pcmk__search_node_caches E host;
                       rej = [Log LOG_INFO ''Rejecting upgrade request from %s: %s rc=%d peer=%s'']
                   in if origin \<noteq> None then
                        (let up = upgrade_rejection E (req a) r
                         in rej @ [Sent origin crm_msg_cib up True] @
                            (if \<not> send_cluster_message E origin crm_msg_cib up True
                             then [Log LOG_WARNING ''Could not send CIB upgrade result to %s'']
                             else []))
                      else rej)
                else [])
         in (\<lparr>rc = r, new_result_cib = rcib, new_answer = ans, effects = tr @ fx @ fx2\<rparr>, st)))"

subsection \<open>Diffs and replacements\<close>

definition cib_server_process_diff :: "env \<Rightarrow> call \<Rightarrow> node_state \<Rightarrow> outcome \<times> node_state" where
  "cib_server_process_diff E a st =
     (let st = (if sync_in_progress st > MAX_DIFF_RETRY then st\<lparr>sync_in_progress := 0\<rparr> else st)
      in if sync_in_progress st \<noteq> 0 \<and> \<not> based_is_primary st then
           (\<lparr>rc = - pcmk_err_diff_resync E, new_result_cib = result_cib a, new_answer = answer a,
             effects = [Log LOG_NOTICE
                          ''Not applying diff %d.%d.%d -> %d.%d.%d (sync in progress)'']\<rparr>,
            st\<lparr>sync_in_progress := sync_in_progress st + 1\<rparr>)
         else
           (let (r, rcib, ans) = cib_process_diff E a;
                tr = [Delegated ''cib_process_diff'' a, Log LOG_TRACE ''result: %s (%d), %s'']
            in if r = - pcmk_err_diff_resync E \<and> \<not> based_is_primary st then
                 (let (fx, st) = send_sync_request E None st
                  in (\<lparr>rc = r, new_result_cib = None, new_answer = ans, effects = tr @ fx\<rparr>, st))
               else if r = - pcmk_err_diff_resync E then
                 (\<lparr>rc = - pcmk_err_diff_failed E, new_result_cib = rcib, new_answer = ans,
                   effects = tr @
                     (if options a AND cib_force_diff E \<noteq> 0
                      then [Log LOG_WARNING ''Not requesting full refresh in R/W mode'']
                      else [])\<rparr>, st)
               else if r \<noteq> pcmk_ok \<and> \<not> based_is_primary st \<and> cib_legacy_mode E then
                 (let (fx, st) = send_sync_request E None st
                  in (\<lparr>rc = r, new_result_cib = None, new_answer = ans,
                       effects = tr @
                         [Log LOG_WARNING
                            ''Requesting full CIB refresh because update failed: %s rc=%d''] @
                         fx\<rparr>, st))
               else (\<lparr>rc = r, new_result_cib = rcib, new_answer = ans, effects = tr\<rparr>, st)))"

definition cib_process_replace_svr :: "env \<Rightarrow> call \<Rightarrow> node_state \<Rightarrow> outcome \<times> node_state" where
  "cib_process_replace_svr E a st =
     (let (r, rcib, ans) = cib_process_replace E a
      in (\<lparr>rc = r, new_result_cib = rcib, new_answer = ans,
            effects = [Delegated ''cib_process_replace'' a]\<rparr>,
          (if r = pcmk_ok \<and> pcmk__xe_is (input a) PCMK_XE_CIB
           then st\<lparr>sync_in_progress := 0\<rparr> else st)))"

definition cib_process_delete_absolute :: "env \<Rightarrow> call \<Rightarrow> node_state \<Rightarrow> outcome \<times> node_state" where
  "cib_process_delete_absolute E a st =
     (\<lparr>rc = - EINVAL E, new_result_cib = result_cib a, new_answer = answer a, effects = []\<rparr>, st)"

subsection \<open>Listing schemas\<close>

text \<open>
  Modelled from the spec: \<^verbatim>\<open>pcmk__schema_files_later_than\<close> and
  \<^verbatim>\<open>pcmk__build_schema_xml_node\<close> belong to the schema library, which is not among
  the sources. The spec: the responder "enumerates every schema newer than the
  requested version, in ascending order, and serializes each into the reply,
  deduplicating any already-included dependency schemas across entries". The schemas
  the node knows are the list \<open>known_schemas\<close>, a schema is newer than another when
  \<^verbatim>\<open>get_schema_version\<close> gives it the greater number, and \<open>schema_includes\<close> gives
  the schemas a schema depends on. An entry of the reply names its schema in the
  version attribute and has one child for each schema it carries: the schema itself
  and its dependencies, as far as no earlier entry has carried them.
\<close>

definition newer_schema :: "env \<Rightarrow> string \<Rightarrow> string \<Rightarrow> bool" where
  "newer_schema E v s = (get_schema_version E v < get_schema_version E s)"

definition pcmk__schema_files_later_than :: "env \<Rightarrow> string \<Rightarrow> string list" where
  "pcmk__schema_files_later_than E after_ver =
     sort_key (get_schema_version E) (filter (newer_schema E after_ver) (known_schemas E))"

definition schema_file_node :: "string \<Rightarrow> xml" where
  "schema_file_node f = crm_xml_add (create_xml_node (Name ''file'')) (Name ''path'') (Some f)"

definition pcmk__build_schema_xml_node :: "env \<Rightarrow> xml \<Rightarrow> string \<Rightarrow> string list \<Rightarrow> xml \<times> string list" where
  "pcmk__build_schema_xml_node E parent schema already_included =
     (let files = filter (\<lambda>f. f \<notin> set already_included) (remdups (schema # schema_includes E schema));
          schema_node = crm_xml_add (create_xml_node (Name ''schema'')) PCMK_XA_VERSION (Some schema);
          schema_node = Xml (xname schema_node) (xattrs schema_node) (map schema_file_node files)
      in (Xml (xname parent) (xattrs parent) (xkids parent @ [schema_node]),
          already_included @ files))"

text \<open>The loop of \<^verbatim>\<open>cib_process_schemas\<close> over the schemas still to serialize.\<close>

fun schemas_loop :: "env \<Rightarrow> string list \<Rightarrow> xml \<Rightarrow> string list \<Rightarrow> xml \<times> string list" where
  "schemas_loop E [] ans already_included = (ans, already_included)"
| "schemas_loop E (s # iter) ans already_included =
     (let (ans, already_included) = pcmk__build_schema_xml_node E ans s already_included
      in schemas_loop E iter ans already_included)"

definition cib_process_schemas :: "env \<Rightarrow> call \<Rightarrow> node_state \<Rightarrow> outcome \<times> node_state" where
  "cib_process_schemas E a st =
     (let ans = create_xml_node PCMK__XA_SCHEMAS
      in case get_message_xml (req a) PCMK__XA_CIB_CALLDATA of
           None \<Rightarrow>
             (\<lparr>rc = - EPROTO E, new_result_cib = result_cib a, new_answer = Some ans,
               effects = [Log LOG_WARNING ''No data specified in request'']\<rparr>, st)
         | Some data \<Rightarrow>
             (case crm_element_value data PCMK_XA_VERSION of
                None \<Rightarrow>
                  (\<lparr>rc = - EPROTO E, new_result_cib = result_cib a, new_answer = Some ans,
                    effects = [Log LOG_WARNING ''No version specified in request'']\<rparr>, st)
              | Some after_ver \<Rightarrow>
                  if pcmk__str_eq (Some after_ver) (xml_latest_schema E) then
                    (\<lparr>rc = pcmk_ok, new_result_cib = result_cib a, new_answer = Some ans,
                      effects = []\<rparr>, st)
                  else
                    (let schemas = pcmk__schema_files_later_than E after_ver;
                         (ans, already_included) = schemas_loop E schemas ans []
                     in (\<lparr>rc = pcmk_ok, new_result_cib = result_cib a, new_answer = Some ans,
                           effects = []\<rparr>, st))))"

subsection \<open>Sequences of operations\<close>

text \<open>
  The operations of the file, as a node meets them one after the other. Each comes
  with the environment it runs in, since the collaborators may answer differently from
  one call to the next. \<open>Elsewhere\<close> is the rest of the daemon writing the globals it
  can reach: \<^verbatim>\<open>sync_in_progress\<close> is \<^verbatim>\<open>static\<close> and out of its reach.
\<close>

datatype request =
    Shutdown_req call
  | Noop call
  | Readwrite call
  | Ping call
  | Sync call
  | Upgrade_server call
  | Sync_one call
  | Diff call
  | Replace_svr call
  | Delete_absolute call
  | Schemas call
  | Send_sync_request "string option"
  | Elsewhere bool "xml option" bool

fun handle :: "env \<Rightarrow> request \<Rightarrow> node_state \<Rightarrow> effect list \<times> node_state" where
  "handle E (Shutdown_req a) st = (let (out, st') = cib_process_shutdown_req E a st in (effects out, st'))"
| "handle E (Noop a) st = (let (out, st') = cib_process_noop a st in (effects out, st'))"
| "handle E (Readwrite a) st = (let (out, st') = cib_process_readwrite E a st in (effects out, st'))"
| "handle E (Ping a) st = (let (out, st') = cib_process_ping E a st in (effects out, st'))"
| "handle E (Sync a) st = (let (out, st') = cib_process_sync E a st in (effects out, st'))"
| "handle E (Upgrade_server a) st = (let (out, st') = cib_process_upgrade_server E a st in (effects out, st'))"
| "handle E (Sync_one a) st = (let (out, st') = cib_process_sync_one E a st in (effects out, st'))"
| "handle E (Diff a) st = (let (out, st') = cib_server_process_diff E a st in (effects out, st'))"
| "handle E (Replace_svr a) st = (let (out, st') = cib_process_replace_svr E a st in (effects out, st'))"
| "handle E (Delete_absolute a) st = (let (out, st') = cib_process_delete_absolute E a st in (effects out, st'))"
| "handle E (Schemas a) st = (let (out, st') = cib_process_schemas E a st in (effects out, st'))"
| "handle E (Send_sync_request host) st = send_sync_request E host st"
| "handle E (Elsewhere p cib sd) st =
     ([], st\<lparr>based_is_primary := p, the_cib := cib, cib_shutdown_flag := sd\<rparr>)"

fun run :: "(env \<times> request) list \<Rightarrow> node_state \<Rightarrow> node_state" where
  "run [] st = st"
| "run ((E, r) # more_requests) st = run more_requests (snd (handle E r st))"

subsection \<open>What the effects of a call tell\<close>

fun is_log :: "effect \<Rightarrow> bool" where
  "is_log (Log l m) = True"
| "is_log e = False"

fun is_sent :: "effect \<Rightarrow> bool" where
  "is_sent (Sent peer c m ordered) = True"
| "is_sent e = False"

fun is_broadcast :: "effect \<Rightarrow> bool" where
  "is_broadcast (Sent None c m ordered) = True"
| "is_broadcast e = False"

fun is_terminate :: "effect \<Rightarrow> bool" where
  "is_terminate (Terminate f c) = True"
| "is_terminate e = False"

fun is_delegated :: "effect \<Rightarrow> bool" where
  "is_delegated (Delegated f a) = True"
| "is_delegated e = False"

text \<open>A broadcast of the resync request: the \<^verbatim>\<open>sync-me\<close> envelope, sent to all peers.\<close>

fun is_resync_request :: "env \<Rightarrow> effect \<Rightarrow> bool" where
  "is_resync_request E (Sent peer c m ordered) =
     (xname m = Name ''sync-me'' \<and>
      crm_element_value m PCMK__XA_CIB_OP = Some (PCMK__CIB_REQUEST_SYNC_TO_ONE E))"
| "is_resync_request E e = False"

definition diff_ignored_notice :: effect where
  "diff_ignored_notice =
     Log LOG_NOTICE ''Not applying diff %d.%d.%d -> %d.%d.%d (sync in progress)''"

text \<open>The attribute of the answer that a handler leaves, if it leaves an answer.\<close>

definition answer_value :: "outcome \<Rightarrow> xml_name \<Rightarrow> string option" where
  "answer_value out f =
     (case new_answer out of None \<Rightarrow> None | Some ans \<Rightarrow> crm_element_value ans f)"

text \<open>The values of an attribute in the cluster messages among the effects of a call.\<close>

fun sent_value :: "xml_name \<Rightarrow> effect \<Rightarrow> string option" where
  "sent_value f (Sent peer c m ordered) = crm_element_value m f"
| "sent_value f e = None"

definition sent_values :: "effect list \<Rightarrow> xml_name \<Rightarrow> string option list" where
  "sent_values fx f = map (sent_value f) (filter is_sent fx)"

text \<open>
  The cluster messages among the effects of a call: none, or exactly one, which is the
  broadcast of a resync request.
\<close>

definition one_resync_broadcast :: "env \<Rightarrow> effect list \<Rightarrow> bool" where
  "one_resync_broadcast E fx =
     (case filter is_sent fx of
        [e] \<Rightarrow> is_broadcast e \<and> is_resync_request E e
      | _ \<Rightarrow> False)"

definition no_message :: "effect list \<Rightarrow> bool" where
  "no_message fx = (filter is_sent fx = [])"

text \<open>
  The first statement of \<^verbatim>\<open>cib_server_process_diff\<close>: a counter above the retry
  ceiling goes back to zero.
\<close>

definition ceiling_reset :: "node_state \<Rightarrow> node_state" where
  "ceiling_reset st =
     (if sync_in_progress st > MAX_DIFF_RETRY then st\<lparr>sync_in_progress := 0\<rparr> else st)"

subsection \<open>The lifecycle of the resync counter\<close>

text \<open>
  The lifecycle of \<^verbatim>\<open>sync_in_progress\<close> in the words of its description, as a
  machine of its own over the role and the counter: it never looks at what a handler
  returns, sends or logs. The counter is set to one when a resync request is issued,
  goes up by one when a diff is ignored, and goes back to zero when a replacement of
  the whole document succeeds and when it has exceeded the retry ceiling of 5.

  A diff that arrives first meets the ceiling. It is then ignored when a resync is
  outstanding and the node is secondary. Otherwise it is applied by
  \<^verbatim>\<open>cib_process_diff\<close>, and a resync is requested when the node is secondary and
  the primitive's result is "needs resync", or is any other failure in legacy mode. A
  replacement resets the counter when \<^verbatim>\<open>cib_process_replace\<close> returns success
  for a payload that is a \<^verbatim>\<open>cib\<close> element. The role is the one the role requests
  leave: "is primary" changes nothing, "become primary" makes the node primary, any
  other operation makes it secondary.
\<close>

datatype counter_event = Resync_requested | Diff_ignored | Replaced_whole | Ceiling_exceeded

fun counter_after :: "counter_event \<Rightarrow> int \<Rightarrow> int" where
  "counter_after Resync_requested s = 1"
| "counter_after Diff_ignored s = s + 1"
| "counter_after Replaced_whole s = 0"
| "counter_after Ceiling_exceeded s = 0"

definition resync_wanted :: "env \<Rightarrow> call \<Rightarrow> bool \<Rightarrow> bool" where
  "resync_wanted E a primary =
     (let r = fst (cib_process_diff E a)
      in \<not> primary \<and> (r = - pcmk_err_diff_resync E \<or> (r \<noteq> pcmk_ok \<and> cib_legacy_mode E)))"

fun lifecycle_events :: "env \<Rightarrow> request \<Rightarrow> bool \<Rightarrow> int \<Rightarrow> counter_event list" where
  "lifecycle_events E (Send_sync_request host) primary s = [Resync_requested]"
| "lifecycle_events E (Diff a) primary s =
     (if s > 5 then
        Ceiling_exceeded # (if resync_wanted E a primary then [Resync_requested] else [])
      else if s \<noteq> 0 \<and> \<not> primary then [Diff_ignored]
      else if resync_wanted E a primary then [Resync_requested]
      else [])"
| "lifecycle_events E (Replace_svr a) primary s =
     (if fst (cib_process_replace E a) = pcmk_ok \<and> pcmk__xe_is (input a) PCMK_XE_CIB
      then [Replaced_whole] else [])"
| "lifecycle_events E r primary s = []"

fun role_after :: "env \<Rightarrow> request \<Rightarrow> bool \<Rightarrow> bool" where
  "role_after E (Readwrite a) primary =
     (if op a = Some (PCMK__CIB_REQUEST_IS_PRIMARY E) then primary
      else if op a = Some (PCMK__CIB_REQUEST_PRIMARY E) then True
      else False)"
| "role_after E (Elsewhere p cib sd) primary = p"
| "role_after E r primary = primary"

fun lifecycle :: "(env \<times> request) list \<Rightarrow> bool \<Rightarrow> int \<Rightarrow> counter_event list" where
  "lifecycle [] primary s = []"
| "lifecycle ((E, r) # more_requests) primary s =
     lifecycle_events E r primary s @
     lifecycle more_requests (role_after E r primary)
       (fold counter_after (lifecycle_events E r primary s) s)"

subsection \<open>Upgrade requests and schema lists, as the properties read them\<close>

text \<open>
  What Phase 1 of \<^verbatim>\<open>cib_process_upgrade_server\<close> compares: the schema version of the
  live document (zero without a \<^verbatim>\<open>validate-with\<close> attribute), and the result code
  and the version that \<^verbatim>\<open>update_validation\<close> gives for the working copy.
\<close>

definition live_schema_version :: "env \<Rightarrow> call \<Rightarrow> int" where
  "live_schema_version E a =
     (case existing_cib a of
        None \<Rightarrow> 0
      | Some cib \<Rightarrow>
          (case crm_element_value cib PCMK_XA_VALIDATE_WITH of
             None \<Rightarrow> 0
           | Some v \<Rightarrow> get_schema_version E v))"

definition validation_rc :: "env \<Rightarrow> call \<Rightarrow> int" where
  "validation_rc E a = fst (update_validation E (existing_cib a) 0 0 True True)"

definition validated_version :: "env \<Rightarrow> call \<Rightarrow> int" where
  "validated_version E a = snd (snd (update_validation E (existing_cib a) 0 0 True True))"

definition rejection_notice :: effect where
  "rejection_notice = Log LOG_INFO ''Rejecting upgrade request from %s: %s rc=%d peer=%s''"




subsection \<open>An example node\<close>

text \<open>
  A concrete environment, call and state for evaluating the handlers: the error
  numbers of Linux and of Pacemaker's result codes, three known schemas, a membership
  cache that knows \<^verbatim>\<open>node2\<close> only, and collaborators that succeed.
\<close>

text \<open>The decimal text of a number, for \<^verbatim>\<open>crm_xml_add_int\<close> on the example node.\<close>

function decimal_digits :: "nat \<Rightarrow> string" where
  "decimal_digits n =
     (if n < 10 then [''0123456789'' ! n]
      else decimal_digits (n div 10) @ [''0123456789'' ! (n mod 10)])"
  by pat_completeness auto
termination
  by (relation "measure id") auto

declare decimal_digits.simps [simp del]

definition decimal :: "int \<Rightarrow> string" where
  "decimal i = (if i < 0 then CHR ''-'' # decimal_digits (nat (- i)) else decimal_digits (nat i))"

definition example_env :: env where
  "example_env =
     \<lparr>EPERM = 1, EINVAL = 22, EPROTO = 71, ENOTCONN = 107,
      pcmk_err_diff_failed = 206, pcmk_err_diff_resync = 207,
      pcmk_err_schema_unchanged = 211, cib_force_diff = 268435456,
      PCMK__CIB_REQUEST_IS_PRIMARY = ''cib_ismaster'',
      PCMK__CIB_REQUEST_PRIMARY = ''cib_master'',
      PCMK__CIB_REQUEST_SYNC_TO_ONE = ''cib_sync_one'',
      PCMK__CIB_REQUEST_REPLACE = ''cib_replace'',
      PCMK__CIB_REQUEST_UPGRADE = ''cib_upgrade'',
      T_CIB = ''cib'', CRM_FEATURE_SET = ''3.19.0'',
      stand_alone = False, crm_cluster_uname = Some ''node1'',
      cib_legacy_mode = False, tracing = False,
      pcmk__get_node = (\<lambda>h. case h of None \<Rightarrow> None | Some n \<Rightarrow> Some \<lparr>uname = n\<rparr>),
      pcmk__search_node_caches =
        (\<lambda>h. case h of None \<Rightarrow> None
              | Some n \<Rightarrow> if n = ''node2'' then Some \<lparr>uname = n\<rparr> else None),
      send_cluster_message = (\<lambda>peer c m ordered. True),
      calculate_xml_versioned_digest =
        (\<lambda>x sort do_filter v. case x of None \<Rightarrow> None | Some d \<Rightarrow> Some (concat (map snd (xattrs d)))),
      copy_in_properties = (\<lambda>target src. Xml (xname target) (xattrs src) (xkids target)),
      pcmk__itoa = decimal,
      cib_process_diff = (\<lambda>a. (0, result_cib a, answer a)),
      cib_process_replace = (\<lambda>a. (0, input a, answer a)),
      cib_process_upgrade = (\<lambda>a. (0, existing_cib a, answer a)),
      update_validation = (\<lambda>x best m transform to_logs. (0, x, 2)),
      get_schema_version =
        (\<lambda>n. if n = ''pacemaker-1.0'' then 0 else if n = ''pacemaker-2.0'' then 1
             else if n = ''pacemaker-3.0'' then 2 else - 1),
      get_schema_name =
        (\<lambda>i. if i = 0 then Some ''pacemaker-1.0'' else if i = 1 then Some ''pacemaker-2.0''
             else if i = 2 then Some ''pacemaker-3.0'' else Some ''unknown''),
      xml_latest_schema = Some ''pacemaker-3.0'',
      known_schemas = [''pacemaker-1.0'', ''pacemaker-2.0'', ''pacemaker-3.0''],
      schema_includes = (\<lambda>s. [''versions''])\<rparr>"

definition example_cib :: xml where
  "example_cib = Xml PCMK_XE_CIB [(PCMK_XA_VALIDATE_WITH, ''pacemaker-1.0'')] []"

definition example_call :: call where
  "example_call =
     \<lparr>op = Some ''cib_master'', options = 0, sectn = None,
      req = Xml (Name ''cib_command'')
              [(PCMK__XA_SRC, ''node2''), (PCMK__XA_CIB_OP, ''cib_master''),
               (PCMK__XA_CIB_CALLID, ''7''), (F_CIB_PING_ID, ''42'')] [],
      input = None,
      existing_cib = Some example_cib,
      result_cib = None, answer = None\<rparr>"

definition example_sync_request :: xml where
  "example_sync_request =
     Xml (Name ''cib_command'')
       [(PCMK__XA_T, ''cib''), (PCMK__XA_SRC, ''node2''), (PCMK__XA_CIB_OP, ''cib_sync_one''),
        (PCMK__XA_CIB_CALLID, ''7''), (PCMK__XA_CIB_HOST, ''node3''),
        (F_CIB_USER, ''hacluster''), (F_CIB_PING_ID, ''42'')] []"


section \<open>Properties\<close>

lemma example_env_ok: "hdr_ok example_env"
  by (simp add: hdr_ok_def example_env_def)

lemma decimal_example: "decimal (- 211) = ''-211''"
  by (simp add: decimal_def decimal_digits.simps [of 211] decimal_digits.simps [of 21]
      decimal_digits.simps [of 2])

text \<open>The definitions that the evaluation of a handler on the example node unfolds.\<close>

lemmas eval_defs =
  cib_server_process_diff_def send_sync_request_def example_env_def example_call_def
  example_cib_def
  initial_state_def pcmk_ok_def MAX_DIFF_RETRY_def ceiling_reset_def no_message_def
  one_resync_broadcast_def diff_ignored_notice_def crm_xml_add_def create_xml_node_def
  crm_element_value_def Let_def

subsection \<open>The XML helpers and the resync request\<close>

lemma create_xml_node_sel [simp]:
  "xname (create_xml_node n) = n"
  "xattrs (create_xml_node n) = []"
  "xkids (create_xml_node n) = []"
  by (simp_all add: create_xml_node_def)

lemma crm_element_value_create [simp]: "crm_element_value (create_xml_node n) f = None"
  by (simp add: crm_element_value_def)

lemma crm_xml_add_sel [simp]:
  "xname (crm_xml_add x n v) = xname x"
  "xkids (crm_xml_add x n v) = xkids x"
  by (simp_all add: crm_xml_add_def split: option.split)

lemma crm_element_value_add [simp]:
  "crm_element_value (crm_xml_add x n v) f =
     (if f = n \<and> v \<noteq> None then v else crm_element_value x f)"
  by (cases v) (simp_all add: crm_xml_add_def crm_element_value_def update_conv')

lemma crm_xml_add_None [simp]: "crm_xml_add x n None = x"
  by (simp add: crm_xml_add_def)

lemma xml_remove_prop_sel [simp]:
  "xname (xml_remove_prop x n) = xname x"
  "xkids (xml_remove_prop x n) = xkids x"
  by (simp_all add: xml_remove_prop_def)

lemma crm_element_value_remove [simp]:
  "crm_element_value (xml_remove_prop x n) f = (if f = n then None else crm_element_value x f)"
  by (simp add: xml_remove_prop_def crm_element_value_def delete_conv')

lemma add_message_xml_sel [simp]:
  "xname (add_message_xml msg field x) = xname msg"
  "xkids (add_message_xml msg field x) =
     xkids msg @ [Xml field [] (case x of None \<Rightarrow> [] | Some d \<Rightarrow> [d])]"
  by (simp_all add: add_message_xml_def)

lemma crm_element_value_add_message [simp]:
  "crm_element_value (add_message_xml msg field x) f = crm_element_value msg f"
  by (simp add: add_message_xml_def crm_element_value_def)

lemma pcmk__xe_set_bool_attr_sel [simp]:
  "xname (pcmk__xe_set_bool_attr x n b) = xname x"
  "xkids (pcmk__xe_set_bool_attr x n b) = xkids x"
  by (simp_all add: pcmk__xe_set_bool_attr_def)

lemma crm_element_value_set_bool [simp]:
  "crm_element_value (pcmk__xe_set_bool_attr x n b) f =
     (if f = n then Some (if b then ''true'' else ''false'') else crm_element_value x f)"
  by (simp add: pcmk__xe_set_bool_attr_def)

lemma crm_xml_add_int_sel [simp]:
  "xname (crm_xml_add_int E x n i) = xname x"
  "xkids (crm_xml_add_int E x n i) = xkids x"
  by (simp_all add: crm_xml_add_int_def)

lemma crm_element_value_add_int [simp]:
  "crm_element_value (crm_xml_add_int E x n i) f =
     (if f = n then Some (pcmk__itoa E i) else crm_element_value x f)"
  by (simp add: crm_xml_add_int_def)

lemma send_sync_request_state [simp]:
  "snd (send_sync_request E host st) = st\<lparr>sync_in_progress := 1\<rparr>"
  by (simp add: send_sync_request_def Let_def)

lemma send_sync_request_effects:
  "\<exists>m. (\<forall>st. fst (send_sync_request E host st) =
               [Log LOG_INFO ''Requesting re-sync from %s'',
                Sent (if host \<noteq> None then pcmk__get_node E host else None) crm_msg_cib m False]) \<and>
        xname m = Name ''sync-me'' \<and>
        crm_element_value m PCMK__XA_T = Some (T_CIB E) \<and>
        crm_element_value m PCMK__XA_CIB_OP = Some (PCMK__CIB_REQUEST_SYNC_TO_ONE E)"
  by (simp add: send_sync_request_def Let_def)

subsection \<open>Role requests\<close>

text \<open>
  C5. For every role-change request handled by \<^verbatim>\<open>cib_process_readwrite\<close>: the query
  "is primary" returns success exactly when the node is primary and \<^verbatim>\<open>-EPERM\<close>
  otherwise, and changes no state; "become primary" sets the role to primary and
  succeeds, logs the transition only when the node was secondary, and a second call
  changes nothing, succeeds and logs no transition; any other operation makes a
  primary secondary, leaves a secondary as it is, and succeeds. Nothing but log lines
  is emitted, and the two output pointers are left alone.
\<close>

theorem readwrite_role_requests:
  "hdr_ok E \<Longrightarrow>
   (case cib_process_readwrite E a st of
      (out, st') \<Rightarrow>
        new_result_cib out = result_cib a \<and> new_answer out = answer a \<and>
        list_all is_log (effects out) \<and>
        (if op a = Some (PCMK__CIB_REQUEST_IS_PRIMARY E) then
           st' = st \<and> (rc out = pcmk_ok) = based_is_primary st \<and>
           (\<not> based_is_primary st \<longrightarrow> rc out = - EPERM E)
         else if op a = Some (PCMK__CIB_REQUEST_PRIMARY E) then
           st' = st\<lparr>based_is_primary := True\<rparr> \<and> rc out = pcmk_ok \<and>
           (Log LOG_INFO ''We are now in R/W mode'' \<in> set (effects out)) = (\<not> based_is_primary st) \<and>
           (case cib_process_readwrite E a st' of
              (out2, st'') \<Rightarrow>
                st'' = st' \<and> rc out2 = pcmk_ok \<and>
                Log LOG_INFO ''We are now in R/W mode'' \<notin> set (effects out2))
         else
           st' = st\<lparr>based_is_primary := False\<rparr> \<and> rc out = pcmk_ok \<and>
           (\<not> based_is_primary st \<longrightarrow> st' = st)))"
  by (auto simp: cib_process_readwrite_def pcmk__str_eq_def hdr_ok_def pcmk_ok_def Let_def)

theorem readwrite_role_requests_witness:
  "hdr_ok example_env \<and>
   snd (cib_process_readwrite example_env example_call initial_state) =
     initial_state\<lparr>based_is_primary := True\<rparr> \<and>
   rc (fst (cib_process_readwrite example_env example_call initial_state)) = pcmk_ok \<and>
   rc (fst (cib_process_readwrite example_env (example_call\<lparr>op := Some ''cib_ismaster''\<rparr>)
              initial_state)) = - 1 \<and>
   snd (cib_process_readwrite example_env (example_call\<lparr>op := Some ''cib_slave''\<rparr>)
          (initial_state\<lparr>based_is_primary := True\<rparr>)) = initial_state"
proof -
  have h: "hdr_ok example_env"
    by (rule example_env_ok)
  show ?thesis
    using h
      readwrite_role_requests [OF h, where a = example_call and st = initial_state]
      readwrite_role_requests [OF h, where a = "example_call\<lparr>op := Some ''cib_ismaster''\<rparr>"
        and st = initial_state]
      readwrite_role_requests [OF h, where a = "example_call\<lparr>op := Some ''cib_slave''\<rparr>"
        and st = "initial_state\<lparr>based_is_primary := True\<rparr>"]
    by (simp add: cib_process_readwrite_def pcmk__str_eq_def pcmk_ok_def example_env_def
        example_call_def initial_state_def)
qed

subsection \<open>Shutdown requests\<close>

text \<open>
  C6. For every shutdown request handled by \<^verbatim>\<open>cib_process_shutdown_req\<close>: a message
  that is not a reply is accepted with success and nothing but a log line; a reply
  when no local shutdown was requested fails with \<^verbatim>\<open>-EINVAL\<close>, which is not
  success, and does not terminate; a reply after a local shutdown request calls
  \<^verbatim>\<open>terminate_cib\<close> and returns success. The state is never changed.
\<close>

theorem shutdown_req_cases:
  "hdr_ok E \<Longrightarrow>
   (case cib_process_shutdown_req E a st of
      (out, st') \<Rightarrow>
        st' = st \<and> new_answer out = None \<and> new_result_cib out = result_cib a \<and>
        (if crm_element_value (req a) PCMK__XA_CIB_ISREPLYTO = None then
           rc out = pcmk_ok \<and> list_all is_log (effects out)
         else if \<not> cib_shutdown_flag st then
           rc out = - EINVAL E \<and> rc out \<noteq> pcmk_ok \<and> list_all is_log (effects out)
         else
           rc out = pcmk_ok \<and> Terminate ''cib_process_shutdown_req'' 0 \<in> set (effects out)))"
  by (auto simp: cib_process_shutdown_req_def hdr_ok_def pcmk_ok_def)


theorem shutdown_req_cases_witness:
  "hdr_ok example_env \<and>
   rc (fst (cib_process_shutdown_req example_env example_call initial_state)) = pcmk_ok \<and>
   rc (fst (cib_process_shutdown_req example_env
              (example_call\<lparr>req := Xml (Name ''cib_command'') [(PCMK__XA_CIB_ISREPLYTO, ''node1'')] []\<rparr>)
              initial_state)) = - 22 \<and>
   Terminate ''cib_process_shutdown_req'' 0 \<in>
     set (effects (fst (cib_process_shutdown_req example_env
              (example_call\<lparr>req := Xml (Name ''cib_command'') [(PCMK__XA_CIB_ISREPLYTO, ''node1'')] []\<rparr>)
              (initial_state\<lparr>cib_shutdown_flag := True\<rparr>))))"
proof -
  have h: "hdr_ok example_env"
    by (rule example_env_ok)
  show ?thesis
    using h
      shutdown_req_cases [OF h, where a = example_call and st = initial_state]
      shutdown_req_cases [OF h,
        where a = "example_call\<lparr>req := Xml (Name ''cib_command'') [(PCMK__XA_CIB_ISREPLYTO, ''node1'')] []\<rparr>"
        and st = initial_state]
      shutdown_req_cases [OF h,
        where a = "example_call\<lparr>req := Xml (Name ''cib_command'') [(PCMK__XA_CIB_ISREPLYTO, ''node1'')] []\<rparr>"
        and st = "initial_state\<lparr>cib_shutdown_flag := True\<rparr>"]
    by (simp add: cib_process_shutdown_req_def crm_element_value_def pcmk_ok_def example_env_def
        example_call_def initial_state_def)
qed


subsection \<open>Diffs\<close>

lemma resync_broadcast_effects:
  "one_resync_broadcast E (pre @ fst (send_sync_request E None st)) = no_message pre"
  "list_ex (is_resync_request E) (pre @ fst (send_sync_request E None st))"
  "diff_ignored_notice \<notin> set (fst (send_sync_request E None st))"
proof -
  obtain m where
    fx: "\<And>st. fst (send_sync_request E None st) =
           [Log LOG_INFO ''Requesting re-sync from %s'', Sent None crm_msg_cib m False]"
    and m: "xname m = Name ''sync-me''"
      "crm_element_value m PCMK__XA_CIB_OP = Some (PCMK__CIB_REQUEST_SYNC_TO_ONE E)"
    using send_sync_request_effects [of E None] by auto
  show "one_resync_broadcast E (pre @ fst (send_sync_request E None st)) = no_message pre"
    by (cases "filter is_sent pre") (simp_all add: fx m one_resync_broadcast_def no_message_def
        split: list.split)
  show "list_ex (is_resync_request E) (pre @ fst (send_sync_request E None st))"
    by (simp add: fx m)
  show "diff_ignored_notice \<notin> set (fst (send_sync_request E None st))"
    by (simp add: fx diff_ignored_notice_def)
qed

text \<open>
  C2. A primary never takes the branch that ignores a diff: whatever the resync
  counter is, \<^verbatim>\<open>cib_server_process_diff\<close> calls \<^verbatim>\<open>cib_process_diff\<close> once with its
  own arguments, does not log that the diff was not applied, sends nothing, hands back
  what the primitive left in the output pointers, returns the primitive's result (a
  "needs resync" turned into "diff failed"), and the counter is not incremented: it is
  only reset when it was above the ceiling.
\<close>

theorem diff_primary_always_delegates:
  "based_is_primary st \<Longrightarrow>
   (case cib_server_process_diff E a st of
      (out, st') \<Rightarrow>
        (case cib_process_diff E a of
           (r, rcib, ans) \<Rightarrow>
             filter is_delegated (effects out) = [Delegated ''cib_process_diff'' a] \<and>
             diff_ignored_notice \<notin> set (effects out) \<and>
             no_message (effects out) \<and>
             rc out = (if r = - pcmk_err_diff_resync E then - pcmk_err_diff_failed E else r) \<and>
             new_result_cib out = rcib \<and> new_answer out = ans \<and>
             st' = ceiling_reset st))"
  by (auto simp: cib_server_process_diff_def Let_def diff_ignored_notice_def no_message_def
      ceiling_reset_def split: prod.splits)

theorem diff_primary_always_delegates_witness:
  "based_is_primary (initial_state\<lparr>based_is_primary := True, sync_in_progress := 3\<rparr>) \<and>
   filter is_delegated
     (effects (fst (cib_server_process_diff example_env example_call
        (initial_state\<lparr>based_is_primary := True, sync_in_progress := 3\<rparr>)))) =
     [Delegated ''cib_process_diff'' example_call] \<and>
   rc (fst (cib_server_process_diff example_env example_call
        (initial_state\<lparr>based_is_primary := True, sync_in_progress := 3\<rparr>))) = 0 \<and>
   sync_in_progress (snd (cib_server_process_diff example_env example_call
        (initial_state\<lparr>based_is_primary := True, sync_in_progress := 3\<rparr>))) = 3"
proof -
  have p: "based_is_primary (initial_state\<lparr>based_is_primary := True, sync_in_progress := 3\<rparr>)"
    by simp
  show ?thesis
    using p diff_primary_always_delegates [OF p, where E = example_env and a = example_call]
    by (simp add: eval_defs)
qed

text \<open>
  C3. When \<^verbatim>\<open>cib_server_process_diff\<close> calls the primitive (the node is primary, or
  no resync is outstanding, or the counter was above the ceiling), it reads the result
  \<open>r\<close> as follows. "Needs resync" on a secondary: the result document is dropped,
  exactly one message is sent, the broadcast of a resync request, the counter is one
  and "needs resync" is returned. "Needs resync" on a primary: the result is
  \<^verbatim>\<open>-pcmk_err_diff_failed\<close>, nothing is sent. Another failure on a secondary in
  legacy mode: the result document is dropped, the resync request is broadcast, and
  the failure is returned. Success, a failure on a primary and a failure outside
  legacy mode are returned as they are, with the primitive's document and nothing
  sent.
\<close>

theorem diff_result_interpretation:
  "hdr_ok E \<Longrightarrow>
   based_is_primary st \<or> sync_in_progress st = 0 \<or> MAX_DIFF_RETRY < sync_in_progress st \<Longrightarrow>
   (case cib_server_process_diff E a st of
      (out, st') \<Rightarrow>
        (case cib_process_diff E a of
           (r, rcib, ans) \<Rightarrow>
             new_answer out = ans \<and>
             (r = pcmk_ok \<longrightarrow>
                rc out = pcmk_ok \<and> new_result_cib out = rcib \<and> no_message (effects out) \<and>
                st' = ceiling_reset st) \<and>
             (if r = - pcmk_err_diff_resync E \<and> \<not> based_is_primary st then
                rc out = - pcmk_err_diff_resync E \<and> new_result_cib out = None \<and>
                one_resync_broadcast E (effects out) \<and>
                st' = (ceiling_reset st)\<lparr>sync_in_progress := 1\<rparr>
              else if r = - pcmk_err_diff_resync E then
                rc out = - pcmk_err_diff_failed E \<and> rc out \<noteq> pcmk_ok \<and>
                new_result_cib out = rcib \<and> no_message (effects out) \<and>
                st' = ceiling_reset st
              else if r \<noteq> pcmk_ok \<and> \<not> based_is_primary st \<and> cib_legacy_mode E then
                rc out = r \<and> new_result_cib out = None \<and>
                one_resync_broadcast E (effects out) \<and>
                st' = (ceiling_reset st)\<lparr>sync_in_progress := 1\<rparr>
              else
                rc out = r \<and> new_result_cib out = rcib \<and> no_message (effects out) \<and>
                st' = ceiling_reset st)))"
proof -
  assume h: "hdr_ok E"
    and d: "based_is_primary st \<or> sync_in_progress st = 0 \<or> MAX_DIFF_RETRY < sync_in_progress st"
  obtain r rcib ans where p: "cib_process_diff E a = (r, rcib, ans)"
    by (cases "cib_process_diff E a") auto
  have go: "\<not> (sync_in_progress (ceiling_reset st) \<noteq> 0 \<and> \<not> based_is_primary (ceiling_reset st))"
    using d by (auto simp: ceiling_reset_def)
  have prim: "based_is_primary (ceiling_reset st) = based_is_primary st"
    by (simp add: ceiling_reset_def)
  have nz: "- pcmk_err_diff_resync E \<noteq> pcmk_ok" "- pcmk_err_diff_failed E \<noteq> pcmk_ok"
    using h by (simp_all add: hdr_ok_def pcmk_ok_def)
  have tr: "no_message [Delegated ''cib_process_diff'' a, Log LOG_TRACE ''result: %s (%d), %s'']"
    "no_message ([Delegated ''cib_process_diff'' a, Log LOG_TRACE ''result: %s (%d), %s''] @
       [Log LOG_WARNING ''Requesting full CIB refresh because update failed: %s rc=%d''])"
    "no_message ([Delegated ''cib_process_diff'' a, Log LOG_TRACE ''result: %s (%d), %s''] @
       [Log LOG_WARNING ''Not requesting full refresh in R/W mode''])"
    by (simp_all add: no_message_def)
  have unfold: "cib_server_process_diff E a st =
     (let st = ceiling_reset st
      in let (r, rcib, ans) = cib_process_diff E a;
             tr = [Delegated ''cib_process_diff'' a, Log LOG_TRACE ''result: %s (%d), %s'']
         in if r = - pcmk_err_diff_resync E \<and> \<not> based_is_primary st then
              (let (fx, st) = send_sync_request E None st
               in (\<lparr>rc = r, new_result_cib = None, new_answer = ans, effects = tr @ fx\<rparr>, st))
            else if r = - pcmk_err_diff_resync E then
              (\<lparr>rc = - pcmk_err_diff_failed E, new_result_cib = rcib, new_answer = ans,
                effects = tr @
                  (if options a AND cib_force_diff E \<noteq> 0
                   then [Log LOG_WARNING ''Not requesting full refresh in R/W mode'']
                   else [])\<rparr>, st)
            else if r \<noteq> pcmk_ok \<and> \<not> based_is_primary st \<and> cib_legacy_mode E then
              (let (fx, st) = send_sync_request E None st
               in (\<lparr>rc = r, new_result_cib = None, new_answer = ans,
                    effects = tr @
                      [Log LOG_WARNING
                         ''Requesting full CIB refresh because update failed: %s rc=%d''] @
                      fx\<rparr>, st))
            else (\<lparr>rc = r, new_result_cib = rcib, new_answer = ans, effects = tr\<rparr>, st))"
    using go unfolding cib_server_process_diff_def ceiling_reset_def [symmetric] Let_def
    by (simp only: if_False)
  have b: "one_resync_broadcast E
       ([Delegated ''cib_process_diff'' a, Log LOG_TRACE ''result: %s (%d), %s''] @
        fst (send_sync_request E None (ceiling_reset st)))"
    "one_resync_broadcast E
       ([Delegated ''cib_process_diff'' a, Log LOG_TRACE ''result: %s (%d), %s''] @
        [Log LOG_WARNING ''Requesting full CIB refresh because update failed: %s rc=%d''] @
        fst (send_sync_request E None (ceiling_reset st)))"
    using tr resync_broadcast_effects(1) [of E _ "ceiling_reset st"]
    unfolding append_assoc [symmetric] by blast+
  show ?thesis
    unfolding unfold Let_def p
    using nz tr b
    by (simp add: split_beta prim del: append.simps)
qed

theorem diff_result_interpretation_witness:
  "hdr_ok example_env \<and>
   (case cib_server_process_diff
           (example_env\<lparr>cib_process_diff := (\<lambda>a. (- 207, result_cib a, answer a))\<rparr>)
           example_call initial_state of
      (out, st') \<Rightarrow>
        rc out = - 207 \<and> new_result_cib out = None \<and> sync_in_progress st' = 1 \<and>
        one_resync_broadcast example_env (effects out)) \<and>
   (case cib_server_process_diff
           (example_env\<lparr>cib_process_diff := (\<lambda>a. (- 207, result_cib a, answer a))\<rparr>)
           example_call (initial_state\<lparr>based_is_primary := True\<rparr>) of
      (out, st') \<Rightarrow>
        rc out = - 206 \<and> sync_in_progress st' = 0 \<and> no_message (effects out)) \<and>
   (case cib_server_process_diff
           (example_env\<lparr>cib_process_diff := (\<lambda>a. (- 203, result_cib a, answer a)),
                         cib_legacy_mode := True\<rparr>)
           example_call initial_state of
      (out, st') \<Rightarrow>
        rc out = - 203 \<and> new_result_cib out = None \<and> sync_in_progress st' = 1) \<and>
   (case cib_server_process_diff example_env example_call initial_state of
      (out, st') \<Rightarrow> rc out = 0 \<and> st' = initial_state \<and> no_message (effects out))"
proof -
  have h: "hdr_ok (example_env\<lparr>cib_process_diff := f, cib_legacy_mode := l\<rparr>)" for f l
    using example_env_ok by (simp add: hdr_ok_def)
  have h0: "hdr_ok (example_env\<lparr>cib_process_diff := f\<rparr>)" for f
    using example_env_ok by (simp add: hdr_ok_def)
  have z: "based_is_primary (initial_state\<lparr>based_is_primary := b\<rparr>) \<or>
           sync_in_progress (initial_state\<lparr>based_is_primary := b\<rparr>) = 0 \<or>
           MAX_DIFF_RETRY < sync_in_progress (initial_state\<lparr>based_is_primary := b\<rparr>)" for b
    by (simp add: initial_state_def)
  have z0: "based_is_primary initial_state \<or> sync_in_progress initial_state = 0 \<or>
            MAX_DIFF_RETRY < sync_in_progress initial_state"
    by (simp add: initial_state_def)
  show ?thesis
    using example_env_ok
      diff_result_interpretation [OF h0 [of "\<lambda>a. (- 207, result_cib a, answer a)"] z0,
        where a = example_call]
      diff_result_interpretation [OF h0 [of "\<lambda>a. (- 207, result_cib a, answer a)"] z [of True],
        where a = example_call]
      diff_result_interpretation [OF h [where f = "\<lambda>a. (- 203, result_cib a, answer a)" and l = True] z0,
        where a = example_call]
      diff_result_interpretation [OF example_env_ok z0, where a = example_call]
    by (simp add: eval_defs)
qed

subsection \<open>The resync counter\<close>

lemma unchanged_state:
  "snd (cib_process_shutdown_req E a st) = st"
  "snd (cib_process_noop a st) = st"
  "snd (cib_process_ping E a st) = st"
  "snd (cib_process_sync E a st) = st"
  "snd (cib_process_sync_one E a st) = st"
  "snd (cib_process_upgrade_server E a st) = st"
  "snd (cib_process_delete_absolute E a st) = st"
  "snd (cib_process_schemas E a st) = st"
  by (simp_all add: cib_process_shutdown_req_def cib_process_noop_def cib_process_ping_def
      cib_process_sync_def cib_process_sync_one_def cib_process_upgrade_server_def
      cib_process_delete_absolute_def cib_process_schemas_def Let_def split_beta
      split: option.split)

lemma readwrite_step:
  "snd (cib_process_readwrite E a st) =
     st\<lparr>based_is_primary := role_after E (Readwrite a) (based_is_primary st)\<rparr>"
  by (simp add: cib_process_readwrite_def pcmk__str_eq_def Let_def)

lemma diff_ignored_step:
  assumes "\<not> based_is_primary st" "sync_in_progress st \<noteq> 0"
    "sync_in_progress st \<le> MAX_DIFF_RETRY"
  shows "cib_server_process_diff E a st =
     (\<lparr>rc = - pcmk_err_diff_resync E, new_result_cib = result_cib a, new_answer = answer a,
       effects = [diff_ignored_notice]\<rparr>,
      st\<lparr>sync_in_progress := sync_in_progress st + 1\<rparr>)"
  using assms by (simp add: cib_server_process_diff_def diff_ignored_notice_def)

lemma diff_applied_step:
  assumes "based_is_primary st \<or> sync_in_progress st = 0 \<or> MAX_DIFF_RETRY < sync_in_progress st"
  shows "filter is_delegated (effects (fst (cib_server_process_diff E a st))) =
           [Delegated ''cib_process_diff'' a]"
    and "list_ex (is_resync_request E) (effects (fst (cib_server_process_diff E a st))) =
           resync_wanted E a (based_is_primary st)"
    and "snd (cib_server_process_diff E a st) =
           st\<lparr>sync_in_progress :=
               (if resync_wanted E a (based_is_primary st) then 1
                else if MAX_DIFF_RETRY < sync_in_progress st then 0
                else sync_in_progress st)\<rparr>"
proof -
  obtain r rcib ans where p: "cib_process_diff E a = (r, rcib, ans)"
    by (cases "cib_process_diff E a") auto
  have go: "(sync_in_progress (ceiling_reset st) \<noteq> 0 \<and> \<not> based_is_primary (ceiling_reset st)) =
      False"
    using assms by (auto simp: ceiling_reset_def)
  have prim: "based_is_primary (ceiling_reset st) = based_is_primary st"
    by (simp add: ceiling_reset_def)
  obtain m where
    fx: "\<And>st. fst (send_sync_request E None st) =
           [Log LOG_INFO ''Requesting re-sync from %s'', Sent None crm_msg_cib m False]"
    and m: "xname m = Name ''sync-me''"
      "crm_element_value m PCMK__XA_CIB_OP = Some (PCMK__CIB_REQUEST_SYNC_TO_ONE E)"
    using send_sync_request_effects [of E None] by auto
  have body: "cib_server_process_diff E a st =
     (let st = ceiling_reset st;
          tr = [Delegated ''cib_process_diff'' a, Log LOG_TRACE ''result: %s (%d), %s'']
      in if r = - pcmk_err_diff_resync E \<and> \<not> based_is_primary st then
           (\<lparr>rc = r, new_result_cib = None, new_answer = ans,
             effects = tr @ fst (send_sync_request E None st)\<rparr>, st\<lparr>sync_in_progress := 1\<rparr>)
         else if r = - pcmk_err_diff_resync E then
           (\<lparr>rc = - pcmk_err_diff_failed E, new_result_cib = rcib, new_answer = ans,
             effects = tr @
               (if options a AND cib_force_diff E \<noteq> 0
                then [Log LOG_WARNING ''Not requesting full refresh in R/W mode'']
                else [])\<rparr>, st)
         else if r \<noteq> pcmk_ok \<and> \<not> based_is_primary st \<and> cib_legacy_mode E then
           (\<lparr>rc = r, new_result_cib = None, new_answer = ans,
             effects = tr @
               [Log LOG_WARNING
                  ''Requesting full CIB refresh because update failed: %s rc=%d''] @
               fst (send_sync_request E None st)\<rparr>, st\<lparr>sync_in_progress := 1\<rparr>)
         else (\<lparr>rc = r, new_result_cib = rcib, new_answer = ans, effects = tr\<rparr>, st))"
    unfolding cib_server_process_diff_def ceiling_reset_def [symmetric] Let_def p go
    by (simp add: split_beta)
  show "filter is_delegated (effects (fst (cib_server_process_diff E a st))) =
          [Delegated ''cib_process_diff'' a]"
    unfolding body Let_def by (simp add: fx)
  show "list_ex (is_resync_request E) (effects (fst (cib_server_process_diff E a st))) =
          resync_wanted E a (based_is_primary st)"
    unfolding body Let_def by (auto simp: fx m prim resync_wanted_def p)
  show "snd (cib_server_process_diff E a st) =
          st\<lparr>sync_in_progress :=
              (if resync_wanted E a (based_is_primary st) then 1
               else if MAX_DIFF_RETRY < sync_in_progress st then 0
               else sync_in_progress st)\<rparr>"
    unfolding body Let_def by (auto simp: prim resync_wanted_def p ceiling_reset_def)
qed

lemma diff_step:
  "snd (cib_server_process_diff E a st) =
     st\<lparr>sync_in_progress :=
         fold counter_after
           (lifecycle_events E (Diff a) (based_is_primary st) (sync_in_progress st))
           (sync_in_progress st)\<rparr>"
proof (cases "\<not> based_is_primary st \<and> sync_in_progress st \<noteq> 0 \<and>
    sync_in_progress st \<le> MAX_DIFF_RETRY")
  case True
  then show ?thesis
    by (simp add: diff_ignored_step MAX_DIFF_RETRY_def)
next
  case False
  then have d: "based_is_primary st \<or> sync_in_progress st = 0 \<or>
      MAX_DIFF_RETRY < sync_in_progress st"
    by auto
  show ?thesis
    using d unfolding diff_applied_step(3) [OF d]
    by (auto simp: MAX_DIFF_RETRY_def resync_wanted_def)
qed

lemma replace_step:
  "snd (cib_process_replace_svr E a st) =
     st\<lparr>sync_in_progress :=
         fold counter_after
           (lifecycle_events E (Replace_svr a) (based_is_primary st) (sync_in_progress st))
           (sync_in_progress st)\<rparr>"
  by (simp add: cib_process_replace_svr_def split_beta)

lemma handle_step:
  "based_is_primary (snd (handle E r st)) = role_after E r (based_is_primary st)"
  "sync_in_progress (snd (handle E r st)) =
     fold counter_after (lifecycle_events E r (based_is_primary st) (sync_in_progress st))
       (sync_in_progress st)"
  by (cases r; simp add: split_beta unchanged_state readwrite_step diff_step replace_step
      del: lifecycle_events.simps role_after.simps; simp)+

text \<open>
  C1. The counter \<^verbatim>\<open>sync_in_progress\<close> follows its lifecycle and nothing else. After
  any sequence of operations of the file (and of writes of the other globals by the
  rest of the daemon) its value is the one the lifecycle machine computes from the
  initial role and counter: one for a resync request issued, plus one for a diff
  ignored, zero for a successful replacement of the whole document, zero for a counter
  above the ceiling of 5 when a diff arrives.

  The handlers do what the events say. On a secondary with a counter that is not zero
  and not above the ceiling the diff is ignored: \<^verbatim>\<open>cib_process_diff\<close> is not called,
  nothing is sent, the result is \<^verbatim>\<open>-pcmk_err_diff_resync\<close> (not success), the two
  output pointers are left alone, and the counter goes up by one. In every other state
  the diff is evaluated: \<^verbatim>\<open>cib_process_diff\<close> is called once with the handler's
  arguments, a resync request is among the messages exactly when the lifecycle has the
  event, and the counter is the one the events give, so after the reset at the ceiling
  diffs are evaluated again. \<^verbatim>\<open>cib_process_replace_svr\<close> calls
  \<^verbatim>\<open>cib_process_replace\<close> once, returns what it returns, and resets the counter
  exactly when that result is success and the payload is a \<^verbatim>\<open>cib\<close> element.
  \<^verbatim>\<open>send_sync_request\<close> sends the resync request and sets the counter to one. No
  operation changes anything else of the state but the role requests the role.
\<close>

theorem sync_in_progress_lifecycle:
  "sync_in_progress (run requests st) =
     fold counter_after (lifecycle requests (based_is_primary st) (sync_in_progress st))
       (sync_in_progress st) \<and>
   (case cib_server_process_diff E a st of
      (out, st') \<Rightarrow>
        if \<not> based_is_primary st \<and> sync_in_progress st \<noteq> 0 \<and>
           sync_in_progress st \<le> MAX_DIFF_RETRY then
          lifecycle_events E (Diff a) (based_is_primary st) (sync_in_progress st) =
            [Diff_ignored] \<and>
          filter is_delegated (effects out) = [] \<and> no_message (effects out) \<and>
          rc out = - pcmk_err_diff_resync E \<and> (hdr_ok E \<longrightarrow> rc out \<noteq> pcmk_ok) \<and>
          new_result_cib out = result_cib a \<and> new_answer out = answer a \<and>
          st' = st\<lparr>sync_in_progress := sync_in_progress st + 1\<rparr>
        else
          Diff_ignored \<notin>
            set (lifecycle_events E (Diff a) (based_is_primary st) (sync_in_progress st)) \<and>
          (Ceiling_exceeded \<in>
             set (lifecycle_events E (Diff a) (based_is_primary st) (sync_in_progress st))) =
            (MAX_DIFF_RETRY < sync_in_progress st) \<and>
          filter is_delegated (effects out) = [Delegated ''cib_process_diff'' a] \<and>
          list_ex (is_resync_request E) (effects out) =
            (Resync_requested \<in>
               set (lifecycle_events E (Diff a) (based_is_primary st) (sync_in_progress st))) \<and>
          st' = st\<lparr>sync_in_progress :=
                    fold counter_after
                      (lifecycle_events E (Diff a) (based_is_primary st) (sync_in_progress st))
                      (sync_in_progress st)\<rparr>) \<and>
   (case cib_process_replace_svr E a st of
      (out, st') \<Rightarrow>
        filter is_delegated (effects out) = [Delegated ''cib_process_replace'' a] \<and>
        no_message (effects out) \<and>
        (rc out, new_result_cib out, new_answer out) = cib_process_replace E a \<and>
        st' = (if fst (cib_process_replace E a) = pcmk_ok \<and> pcmk__xe_is (input a) PCMK_XE_CIB
               then st\<lparr>sync_in_progress := 0\<rparr> else st)) \<and>
   (case send_sync_request E host st of
      (fx, st') \<Rightarrow>
        list_ex (is_resync_request E) fx \<and> length (filter is_sent fx) = 1 \<and>
        st' = st\<lparr>sync_in_progress := 1\<rparr>)"
proof (intro conjI)
  show "sync_in_progress (run requests st) =
     fold counter_after (lifecycle requests (based_is_primary st) (sync_in_progress st))
       (sync_in_progress st)"
  proof (induction requests arbitrary: st)
    case Nil
    show ?case by simp
  next
    case (Cons x requests)
    obtain E r where x: "x = (E, r)" by (cases x) auto
    show ?case
      by (simp add: x Cons.IH handle_step del: lifecycle_events.simps role_after.simps)
  qed
next
  show "case cib_server_process_diff E a st of
      (out, st') \<Rightarrow>
        if \<not> based_is_primary st \<and> sync_in_progress st \<noteq> 0 \<and>
           sync_in_progress st \<le> MAX_DIFF_RETRY then
          lifecycle_events E (Diff a) (based_is_primary st) (sync_in_progress st) =
            [Diff_ignored] \<and>
          filter is_delegated (effects out) = [] \<and> no_message (effects out) \<and>
          rc out = - pcmk_err_diff_resync E \<and> (hdr_ok E \<longrightarrow> rc out \<noteq> pcmk_ok) \<and>
          new_result_cib out = result_cib a \<and> new_answer out = answer a \<and>
          st' = st\<lparr>sync_in_progress := sync_in_progress st + 1\<rparr>
        else
          Diff_ignored \<notin>
            set (lifecycle_events E (Diff a) (based_is_primary st) (sync_in_progress st)) \<and>
          (Ceiling_exceeded \<in>
             set (lifecycle_events E (Diff a) (based_is_primary st) (sync_in_progress st))) =
            (MAX_DIFF_RETRY < sync_in_progress st) \<and>
          filter is_delegated (effects out) = [Delegated ''cib_process_diff'' a] \<and>
          list_ex (is_resync_request E) (effects out) =
            (Resync_requested \<in>
               set (lifecycle_events E (Diff a) (based_is_primary st) (sync_in_progress st))) \<and>
          st' = st\<lparr>sync_in_progress :=
                    fold counter_after
                      (lifecycle_events E (Diff a) (based_is_primary st) (sync_in_progress st))
                      (sync_in_progress st)\<rparr>"
  proof (cases "\<not> based_is_primary st \<and> sync_in_progress st \<noteq> 0 \<and>
      sync_in_progress st \<le> MAX_DIFF_RETRY")
    case True
    then show ?thesis
      by (simp add: diff_ignored_step diff_ignored_notice_def no_message_def hdr_ok_def
          pcmk_ok_def MAX_DIFF_RETRY_def)
  next
    case False
    then have d: "based_is_primary st \<or> sync_in_progress st = 0 \<or>
        MAX_DIFF_RETRY < sync_in_progress st"
      by auto
    have ev: "Diff_ignored \<notin>
          set (lifecycle_events E (Diff a) (based_is_primary st) (sync_in_progress st))"
      "(Ceiling_exceeded \<in>
          set (lifecycle_events E (Diff a) (based_is_primary st) (sync_in_progress st))) =
        (MAX_DIFF_RETRY < sync_in_progress st)"
      "(Resync_requested \<in>
          set (lifecycle_events E (Diff a) (based_is_primary st) (sync_in_progress st))) =
        resync_wanted E a (based_is_primary st)"
      using d by (auto simp: MAX_DIFF_RETRY_def resync_wanted_def)
    show ?thesis
      using False diff_applied_step(1,2) [OF d, of E a] diff_step [of E a st]
      by (simp add: ev split_beta del: lifecycle_events.simps)
  qed
next
  show "case cib_process_replace_svr E a st of
      (out, st') \<Rightarrow>
        filter is_delegated (effects out) = [Delegated ''cib_process_replace'' a] \<and>
        no_message (effects out) \<and>
        (rc out, new_result_cib out, new_answer out) = cib_process_replace E a \<and>
        st' = (if fst (cib_process_replace E a) = pcmk_ok \<and> pcmk__xe_is (input a) PCMK_XE_CIB
               then st\<lparr>sync_in_progress := 0\<rparr> else st)"
    by (simp add: cib_process_replace_svr_def split_beta no_message_def)
next
  obtain m where
    fx: "\<And>st. fst (send_sync_request E host st) =
           [Log LOG_INFO ''Requesting re-sync from %s'',
            Sent (if host \<noteq> None then pcmk__get_node E host else None) crm_msg_cib m False]"
    and m: "xname m = Name ''sync-me''"
      "crm_element_value m PCMK__XA_CIB_OP = Some (PCMK__CIB_REQUEST_SYNC_TO_ONE E)"
    using send_sync_request_effects [of E host] by auto
  show "case send_sync_request E host st of
      (fx, st') \<Rightarrow>
        list_ex (is_resync_request E) fx \<and> length (filter is_sent fx) = 1 \<and>
        st' = st\<lparr>sync_in_progress := 1\<rparr>"
    by (simp add: split_beta fx m)
qed

theorem sync_in_progress_lifecycle_witness:
  "hdr_ok example_env \<and>
   lifecycle
     [(example_env, Send_sync_request None), (example_env, Diff example_call),
      (example_env, Diff example_call),
      (example_env, Replace_svr (example_call\<lparr>input := Some example_cib\<rparr>)),
      (example_env, Diff example_call)] False 0 =
     [Resync_requested, Diff_ignored, Diff_ignored, Replaced_whole] \<and>
   sync_in_progress
     (run [(example_env, Send_sync_request None), (example_env, Diff example_call),
           (example_env, Diff example_call),
           (example_env, Replace_svr (example_call\<lparr>input := Some example_cib\<rparr>)),
           (example_env, Diff example_call)] initial_state) = 0 \<and>
   (case cib_server_process_diff example_env example_call
           (initial_state\<lparr>sync_in_progress := 3\<rparr>) of
      (out, st') \<Rightarrow>
        rc out = - 207 \<and> rc out \<noteq> pcmk_ok \<and> filter is_delegated (effects out) = [] \<and>
        sync_in_progress st' = 4) \<and>
   (case cib_server_process_diff example_env example_call
           (initial_state\<lparr>sync_in_progress := 6\<rparr>) of
      (out, st') \<Rightarrow>
        rc out = pcmk_ok \<and>
        filter is_delegated (effects out) = [Delegated ''cib_process_diff'' example_call] \<and>
        sync_in_progress st' = 0)"
  using example_env_ok
    sync_in_progress_lifecycle [where E = example_env and a = example_call
      and st = initial_state and host = None
      and requests = "[(example_env, Send_sync_request None), (example_env, Diff example_call),
           (example_env, Diff example_call),
           (example_env, Replace_svr (example_call\<lparr>input := Some example_cib\<rparr>)),
           (example_env, Diff example_call)]"]
    sync_in_progress_lifecycle [where E = example_env and a = example_call
      and st = "initial_state\<lparr>sync_in_progress := 3\<rparr>" and host = None and requests = "[]"]
    sync_in_progress_lifecycle [where E = example_env and a = example_call
      and st = "initial_state\<lparr>sync_in_progress := 6\<rparr>" and host = None and requests = "[]"]
  by (simp add: resync_wanted_def cib_process_replace_svr_def pcmk__xe_is_def eval_defs)

text \<open>
  From the initial value the counter stays between zero and one above the ceiling, so
  the increment of the C \<^verbatim>\<open>int\<close> never overflows.
\<close>

lemma sync_in_progress_bounded_step:
  "0 \<le> sync_in_progress st \<and> sync_in_progress st \<le> MAX_DIFF_RETRY + 1 \<Longrightarrow>
   0 \<le> sync_in_progress (snd (handle E r st)) \<and>
   sync_in_progress (snd (handle E r st)) \<le> MAX_DIFF_RETRY + 1"
  unfolding handle_step(2)
  by (cases r) (auto simp: MAX_DIFF_RETRY_def)

lemma sync_in_progress_bounded:
  "0 \<le> sync_in_progress st \<and> sync_in_progress st \<le> MAX_DIFF_RETRY + 1 \<Longrightarrow>
   0 \<le> sync_in_progress (run requests st) \<and>
   sync_in_progress (run requests st) \<le> MAX_DIFF_RETRY + 1"
proof (induction requests arbitrary: st)
  case Nil
  then show ?case by simp
next
  case (Cons x requests)
  obtain E r where x: "x = (E, r)" by (cases x) auto
  show ?case
    using Cons.IH [OF sync_in_progress_bounded_step [OF Cons.prems, of E r]]
    by (simp add: x)
qed

text \<open>
  On the example node, a secondary: the request of a resync sets the counter to one,
  each of the next five diffs is ignored and counts, and the sixth finds the counter
  above the ceiling, resets it and is applied.
\<close>

lemma lifecycle_example_run:
  "map (\<lambda>n. sync_in_progress
         (run ((example_env, Send_sync_request None) #
               replicate n (example_env, Diff example_call)) initial_state))
     [0, 1, 2, 3, 4, 5, 6] = [1, 2, 3, 4, 5, 6, 0]"
  by (simp add: numeral_eq_Suc eval_defs)

subsection \<open>Pings\<close>

text \<open>
  C8. \<^verbatim>\<open>cib_process_ping\<close> has no side effect and is deterministic: the state,
  and with it the current document, is as before; nothing but log lines is emitted;
  the result is success; the answer carries the feature-set identifier, the versioned
  digest of the current document (as \<^verbatim>\<open>calculate_xml_versioned_digest\<close> gives it)
  and the sequence number of the request, absent when the request has none. Two calls
  on states with the same current document put the same digest in the answer.
\<close>

theorem ping_side_effect_free:
  "(case cib_process_ping E a st of
      (out, st') \<Rightarrow>
        st' = st \<and> rc out = pcmk_ok \<and> new_result_cib out = result_cib a \<and>
        list_all is_log (effects out) \<and> new_answer out \<noteq> None \<and>
        answer_value out PCMK_XA_CRM_FEATURE_SET = Some (CRM_FEATURE_SET E) \<and>
        answer_value out PCMK__XA_DIGEST =
          calculate_xml_versioned_digest E (the_cib st) False True (CRM_FEATURE_SET E) \<and>
        answer_value out F_CIB_PING_ID = crm_element_value (req a) F_CIB_PING_ID) \<and>
   (the_cib st2 = the_cib st \<longrightarrow>
      answer_value (fst (cib_process_ping E a2 st2)) PCMK__XA_DIGEST =
      answer_value (fst (cib_process_ping E a st)) PCMK__XA_DIGEST)"
  by (simp add: cib_process_ping_def answer_value_def Let_def split: option.split)

theorem ping_side_effect_free_witness:
  "the_cib (initial_state\<lparr>based_is_primary := True\<rparr>) = the_cib initial_state \<and>
   snd (cib_process_ping example_env example_call initial_state) = initial_state \<and>
   answer_value (fst (cib_process_ping example_env example_call initial_state)) F_CIB_PING_ID =
     Some ''42'' \<and>
   answer_value (fst (cib_process_ping example_env (example_call\<lparr>op := None\<rparr>)
       (initial_state\<lparr>based_is_primary := True\<rparr>))) PCMK__XA_DIGEST =
   answer_value (fst (cib_process_ping example_env example_call initial_state)) PCMK__XA_DIGEST"
  using ping_side_effect_free [where E = example_env and a = example_call and st = initial_state
      and ?a2.0 = "example_call\<lparr>op := None\<rparr>"
      and ?st2.0 = "initial_state\<lparr>based_is_primary := True\<rparr>"]
  by (simp add: cib_process_ping_def answer_value_def eval_defs)

subsection \<open>Sending the whole document\<close>

lemma copy_fields_value:
  "crm_element_value (copy_fields msg fs c) f =
     (if f \<in> set fs \<and> crm_element_value msg f \<noteq> None then crm_element_value msg f
      else crm_element_value c f)"
  by (induction fs arbitrary: c) (auto split: option.split)

lemma copy_fields_sel [simp]:
  "xname (copy_fields msg fs c) = xname c"
  "xkids (copy_fields msg fs c) = xkids c"
  by (induction fs arbitrary: c) (auto split: option.split)

lemma cib_msg_copy_value [simp]:
  "crm_element_value (cib_msg_copy msg) f =
     (if f \<in> set field_list then crm_element_value msg f else None)"
  by (auto simp: cib_msg_copy_def copy_fields_value)

lemma cib_msg_copy_sel [simp]:
  "xname (cib_msg_copy msg) = Name ''copy''"
  "xkids (cib_msg_copy msg) = []"
  by (simp_all add: cib_msg_copy_def)

lemma get_message_xml_added:
  "xkids msg = [] \<Longrightarrow> get_message_xml (add_message_xml msg field x) field = x"
  by (cases x) (simp_all add: get_message_xml_def)

lemma field_list_names:
  "set field_list =
     {PCMK__XA_T, PCMK__XA_CIB_CLIENTID, PCMK__XA_CIB_CALLOPT, PCMK__XA_CIB_CALLID,
      PCMK__XA_CIB_OP, PCMK__XA_CIB_ISREPLYTO, PCMK__XA_CIB_SECTION,
      PCMK__XA_CIB_HOST, PCMK__XA_CIB_RC, PCMK__XA_CIB_DELEGATED_FROM,
      PCMK__XA_CIB_OBJECT, PCMK__XA_CIB_OBJECT_TYPE, F_CIB_TIMEOUT,
      F_CIB_GLOBAL_UPDATE, PCMK__XA_CIB_CLIENTNAME, F_CIB_USER,
      F_CIB_NOTIFY_TYPE, F_CIB_NOTIFY_ACTIVATE}"
  by (simp add: field_list_def)

lemma sync_our_cib_envelope:
  "hdr_ok E \<Longrightarrow>
   (case sync_our_cib E request all st of
      (r, fx) \<Rightarrow>
        if the_cib st = None \<or> (\<not> all \<and> crm_element_value request PCMK__XA_SRC = None) then
          r = - EINVAL E \<and> r \<noteq> pcmk_ok \<and> no_message fx
        else
          (\<exists>msg.
             filter is_sent fx =
               [Sent (if all then None else pcmk__get_node E (crm_element_value request PCMK__XA_SRC))
                  crm_msg_cib msg False] \<and>
             r = (if send_cluster_message E
                       (if all then None
                        else pcmk__get_node E (crm_element_value request PCMK__XA_SRC))
                       crm_msg_cib msg False
                  then pcmk_ok else - ENOTCONN E) \<and>
             (r = - ENOTCONN E) =
               (\<not> send_cluster_message E
                    (if all then None
                     else pcmk__get_node E (crm_element_value request PCMK__XA_SRC))
                    crm_msg_cib msg False) \<and>
             get_message_xml msg PCMK__XA_CIB_CALLDATA = the_cib st \<and>
             (\<forall>f. crm_element_value msg f =
                (if f = PCMK__XA_CIB_OP then Some (PCMK__CIB_REQUEST_REPLACE E)
                 else if f = PCMK__XA_ORIGINAL_CIB_OP then crm_element_value request PCMK__XA_CIB_OP
                 else if f = F_CIB_GLOBAL_UPDATE then Some ''true''
                 else if f = PCMK_XA_CRM_FEATURE_SET then Some (CRM_FEATURE_SET E)
                 else if f = PCMK__XA_DIGEST then
                   calculate_xml_versioned_digest E (the_cib st) False True (CRM_FEATURE_SET E)
                 else if f = PCMK__XA_CIB_ISREPLYTO \<and>
                         crm_element_value request PCMK__XA_SRC \<noteq> None then
                   crm_element_value request PCMK__XA_SRC
                 else if f = PCMK__XA_CIB_HOST \<and> all then None
                 else if f \<in> set field_list
                 then crm_element_value request f
                 else None))))"
proof -
  assume h: "hdr_ok E"
  have nz: "- EINVAL E \<noteq> pcmk_ok" "- ENOTCONN E \<noteq> pcmk_ok"
    using h by (simp_all add: hdr_ok_def pcmk_ok_def)
  have fl: "PCMK__XA_CIB_OP \<in> set field_list" "PCMK__XA_ORIGINAL_CIB_OP \<notin> set field_list"
    "PCMK_XA_CRM_FEATURE_SET \<notin> set field_list" "PCMK__XA_DIGEST \<notin> set field_list"
    by (simp_all add: field_list_def)
  show ?thesis
    using nz fl
    by (auto simp: sync_our_cib_def Let_def no_message_def get_message_xml_added)
qed

text \<open>
  C7. \<^verbatim>\<open>sync_our_cib\<close> returns \<^verbatim>\<open>-EINVAL\<close> and sends nothing when there is no
  local document, or when it is not broadcasting and the request has no source host.
  Otherwise it sends exactly one message, a broadcast when \<open>all\<close> is set and else to
  the node of the source host: the envelope has the operation "replace", the original
  operation, the global-update marker \<^verbatim>\<open>true\<close>, the feature set, the versioned
  digest of the document, the source host as reply marker, no destination host when
  broadcasting, every other field of the fixed list as the request has it and no field
  beyond, and the whole document as payload. The result is \<^verbatim>\<open>-ENOTCONN\<close> exactly
  when the message could not be sent, and success otherwise. The fixed list is the
  one of \<^verbatim>\<open>cib_msg_copy\<close>, whose copy has exactly these eighteen fields of the
  request, as far as the request has them: message type, client id, call options,
  call id, operation, reply marker, section, destination host, result code,
  delegation origin, object id and type, timeout, global-update marker, client name,
  user, notification type and activation.
\<close>

theorem sync_our_cib_cases:
  "hdr_ok E \<Longrightarrow>
   (case sync_our_cib E request all st of
      (r, fx) \<Rightarrow>
        if the_cib st = None \<or> (\<not> all \<and> crm_element_value request PCMK__XA_SRC = None) then
          r = - EINVAL E \<and> r \<noteq> pcmk_ok \<and> no_message fx
        else
          (\<exists>msg.
             filter is_sent fx =
               [Sent (if all then None else pcmk__get_node E (crm_element_value request PCMK__XA_SRC))
                  crm_msg_cib msg False] \<and>
             r = (if send_cluster_message E
                       (if all then None
                        else pcmk__get_node E (crm_element_value request PCMK__XA_SRC))
                       crm_msg_cib msg False
                  then pcmk_ok else - ENOTCONN E) \<and>
             (r = - ENOTCONN E) =
               (\<not> send_cluster_message E
                    (if all then None
                     else pcmk__get_node E (crm_element_value request PCMK__XA_SRC))
                    crm_msg_cib msg False) \<and>
             get_message_xml msg PCMK__XA_CIB_CALLDATA = the_cib st \<and>
             (\<forall>f. crm_element_value msg f =
                (if f = PCMK__XA_CIB_OP then Some (PCMK__CIB_REQUEST_REPLACE E)
                 else if f = PCMK__XA_ORIGINAL_CIB_OP then crm_element_value request PCMK__XA_CIB_OP
                 else if f = F_CIB_GLOBAL_UPDATE then Some ''true''
                 else if f = PCMK_XA_CRM_FEATURE_SET then Some (CRM_FEATURE_SET E)
                 else if f = PCMK__XA_DIGEST then
                   calculate_xml_versioned_digest E (the_cib st) False True (CRM_FEATURE_SET E)
                 else if f = PCMK__XA_CIB_ISREPLYTO \<and>
                         crm_element_value request PCMK__XA_SRC \<noteq> None then
                   crm_element_value request PCMK__XA_SRC
                 else if f = PCMK__XA_CIB_HOST \<and> all then None
                 else if f \<in> {PCMK__XA_T, PCMK__XA_CIB_CLIENTID, PCMK__XA_CIB_CALLOPT, PCMK__XA_CIB_CALLID,
                    PCMK__XA_CIB_OP, PCMK__XA_CIB_ISREPLYTO, PCMK__XA_CIB_SECTION,
                    PCMK__XA_CIB_HOST, PCMK__XA_CIB_RC, PCMK__XA_CIB_DELEGATED_FROM,
                    PCMK__XA_CIB_OBJECT, PCMK__XA_CIB_OBJECT_TYPE, F_CIB_TIMEOUT,
                    F_CIB_GLOBAL_UPDATE, PCMK__XA_CIB_CLIENTNAME, F_CIB_USER,
                    F_CIB_NOTIFY_TYPE, F_CIB_NOTIFY_ACTIVATE}
                 then crm_element_value request f
                 else None)))) \<and>
   xname (cib_msg_copy request) = Name ''copy'' \<and> xkids (cib_msg_copy request) = [] \<and>
   (\<forall>f. crm_element_value (cib_msg_copy request) f =
      (if f \<in> {PCMK__XA_T, PCMK__XA_CIB_CLIENTID, PCMK__XA_CIB_CALLOPT, PCMK__XA_CIB_CALLID,
           PCMK__XA_CIB_OP, PCMK__XA_CIB_ISREPLYTO, PCMK__XA_CIB_SECTION,
           PCMK__XA_CIB_HOST, PCMK__XA_CIB_RC, PCMK__XA_CIB_DELEGATED_FROM,
           PCMK__XA_CIB_OBJECT, PCMK__XA_CIB_OBJECT_TYPE, F_CIB_TIMEOUT,
           F_CIB_GLOBAL_UPDATE, PCMK__XA_CIB_CLIENTNAME, F_CIB_USER,
           F_CIB_NOTIFY_TYPE, F_CIB_NOTIFY_ACTIVATE}
       then crm_element_value request f
       else None))"
proof -
  assume h: "hdr_ok E"
  show ?thesis
    using sync_our_cib_envelope [OF h, where request = request and all = all and st = st]
    unfolding field_list_names [symmetric]
    by simp
qed

theorem sync_our_cib_cases_witness:
  "hdr_ok example_env \<and>
   fst (sync_our_cib example_env (req example_call) True initial_state) = - 22 \<and>
   fst (sync_our_cib example_env (req example_call) False
          (initial_state\<lparr>the_cib := Some example_cib\<rparr>)) = 0 \<and>
   fst (sync_our_cib (example_env\<lparr>send_cluster_message := (\<lambda>peer c m ordered. False)\<rparr>)
          (req example_call) True (initial_state\<lparr>the_cib := Some example_cib\<rparr>)) = - 107 \<and>
   map (sent_values (snd (sync_our_cib example_env example_sync_request True
          (initial_state\<lparr>the_cib := Some example_cib\<rparr>))))
     [PCMK__XA_CIB_OP, PCMK__XA_ORIGINAL_CIB_OP, F_CIB_GLOBAL_UPDATE, PCMK__XA_CIB_ISREPLYTO,
      PCMK__XA_CIB_HOST, PCMK__XA_T, PCMK__XA_CIB_CALLID, F_CIB_USER, F_CIB_PING_ID] =
     [[Some ''cib_replace''], [Some ''cib_sync_one''], [Some ''true''], [Some ''node2''],
      [None], [Some ''cib''], [Some ''7''], [Some ''hacluster''], [None]] \<and>
   sent_values (snd (sync_our_cib example_env example_sync_request False
          (initial_state\<lparr>the_cib := Some example_cib\<rparr>))) PCMK__XA_CIB_HOST =
     [Some ''node3'']"
proof -
  have h: "hdr_ok (example_env\<lparr>send_cluster_message := s\<rparr>)" for s
    using example_env_ok by (simp add: hdr_ok_def)
  show ?thesis
    using example_env_ok
      sync_our_cib_cases [OF example_env_ok, where request = "req example_call" and all = True
        and st = initial_state]
      sync_our_cib_cases [OF example_env_ok, where request = "req example_call" and all = False
        and st = "initial_state\<lparr>the_cib := Some example_cib\<rparr>"]
      sync_our_cib_cases [OF h [of "\<lambda>peer c m ordered. False"],
        where request = "req example_call" and all = True
        and st = "initial_state\<lparr>the_cib := Some example_cib\<rparr>"]
      sync_our_cib_cases [OF example_env_ok, where request = example_sync_request and all = True
        and st = "initial_state\<lparr>the_cib := Some example_cib\<rparr>"]
      sync_our_cib_cases [OF example_env_ok, where request = example_sync_request and all = False
        and st = "initial_state\<lparr>the_cib := Some example_cib\<rparr>"]
    by (simp add: sync_our_cib_def sent_values_def example_sync_request_def cib_msg_copy_def
        field_list_def xml_remove_prop_def pcmk__xe_set_bool_attr_def add_message_xml_def
        eval_defs)
qed

subsection \<open>Schema upgrades\<close>

lemma upgrade_instruction_fields:
  "xname (upgrade_instruction E request v) = Name ''cib_process_upgrade_server''"
  "crm_element_value (upgrade_instruction E request v) PCMK__XA_T = Some (T_CIB E)"
  "crm_element_value (upgrade_instruction E request v) PCMK__XA_CIB_OP =
     Some (PCMK__CIB_REQUEST_UPGRADE E)"
  "crm_element_value (upgrade_instruction E request v) F_CIB_SCHEMA_MAX = get_schema_name E v"
  "crm_element_value (upgrade_instruction E request v) PCMK__XA_CIB_DELEGATED_FROM =
     crm_element_value request PCMK__XA_SRC"
  "crm_element_value (upgrade_instruction E request v) PCMK__XA_CIB_CLIENTID =
     crm_element_value request PCMK__XA_CIB_CLIENTID"
  "crm_element_value (upgrade_instruction E request v) PCMK__XA_CIB_CALLOPT =
     crm_element_value request PCMK__XA_CIB_CALLOPT"
  "crm_element_value (upgrade_instruction E request v) PCMK__XA_CIB_CALLID =
     crm_element_value request PCMK__XA_CIB_CALLID"
  "crm_element_value (upgrade_instruction E request v) PCMK__XA_CIB_ISREPLYTO = None"
  by (simp_all add: upgrade_instruction_def Let_def)

lemma upgrade_rejection_fields:
  "xname (upgrade_rejection E request r) = Name ''cib_process_upgrade_server''"
  "crm_element_value (upgrade_rejection E request r) PCMK__XA_T = Some (T_CIB E)"
  "crm_element_value (upgrade_rejection E request r) PCMK__XA_CIB_OP =
     Some (PCMK__CIB_REQUEST_UPGRADE E)"
  "crm_element_value (upgrade_rejection E request r) PCMK__XA_CIB_UPGRADE_RC =
     Some (pcmk__itoa E r)"
  "crm_element_value (upgrade_rejection E request r) PCMK__XA_CIB_ISREPLYTO =
     crm_element_value request PCMK__XA_SRC"
  "crm_element_value (upgrade_rejection E request r) PCMK__XA_CIB_DELEGATED_FROM =
     crm_element_value request PCMK__XA_SRC"
  "crm_element_value (upgrade_rejection E request r) PCMK__XA_CIB_CLIENTID =
     crm_element_value request PCMK__XA_CIB_CLIENTID"
  "crm_element_value (upgrade_rejection E request r) PCMK__XA_CIB_CALLOPT =
     crm_element_value request PCMK__XA_CIB_CALLOPT"
  "crm_element_value (upgrade_rejection E request r) PCMK__XA_CIB_CALLID =
     crm_element_value request PCMK__XA_CIB_CALLID"
  by (simp_all add: upgrade_rejection_def Let_def)

lemma upgrade_server_phase1_unfold:
  assumes "crm_element_value (req a) F_CIB_SCHEMA_MAX = None"
  shows "cib_process_upgrade_server E a st =
      (let up = upgrade_instruction E (req a) (validated_version E a);
           (r, rcib, ans, fx) =
             (if live_schema_version E a < validated_version E a then
                if cib_legacy_mode E \<and> based_is_primary st then
                  (let (r2, rcib2, ans2) = cib_process_upgrade E (a\<lparr>req := up, answer := None\<rparr>)
                   in (r2, rcib2, ans2,
                       [Log LOG_NOTICE ''Upgrade request from %s verified'',
                        Delegated ''cib_process_upgrade'' (a\<lparr>req := up, answer := None\<rparr>)]))
                else (pcmk_ok, result_cib a, None,
                      [Log LOG_NOTICE ''Upgrade request from %s verified'',
                       Sent None crm_msg_cib up False])
              else if validation_rc E a = pcmk_ok then
                (- pcmk_err_schema_unchanged E, result_cib a, None, [])
              else (validation_rc E a, result_cib a, None, []))
       in (\<lparr>rc = r, new_result_cib = rcib, new_answer = ans,
             effects = Log LOG_TRACE ''Processing \"%s\" event'' # fx @
               (if r \<noteq> pcmk_ok then
                  (case pcmk__search_node_caches E (crm_element_value (req a) PCMK__XA_SRC) of
                     None \<Rightarrow> [rejection_notice]
                   | Some origin \<Rightarrow>
                       [rejection_notice,
                        Sent (Some origin) crm_msg_cib (upgrade_rejection E (req a) r) True] @
                       (if \<not> send_cluster_message E (Some origin) crm_msg_cib
                               (upgrade_rejection E (req a) r) True
                        then [Log LOG_WARNING ''Could not send CIB upgrade result to %s'']
                        else []))
                else [])\<rparr>, st))"
proof -
  obtain vrc sc nv where uv: "update_validation E (existing_cib a) 0 0 True True = (vrc, sc, nv)"
    by (cases "update_validation E (existing_cib a) 0 0 True True") auto
  have cv: "(case (case existing_cib a of
                     None \<Rightarrow> None
                   | Some cib \<Rightarrow> crm_element_value cib PCMK_XA_VALIDATE_WITH) of
               None \<Rightarrow> 0
             | Some v \<Rightarrow> get_schema_version E v) = live_schema_version E a"
    by (simp add: live_schema_version_def split: option.split)
  have vv: "validated_version E a = nv" "validation_rc E a = vrc"
    by (simp_all add: validated_version_def validation_rc_def uv)
  obtain r2 rcib2 ans2 where
    up: "cib_process_upgrade E (a\<lparr>req := upgrade_instruction E (req a) nv, answer := None\<rparr>) =
           (r2, rcib2, ans2)"
    by (cases "cib_process_upgrade E (a\<lparr>req := upgrade_instruction E (req a) nv, answer := None\<rparr>)")
      auto
  show ?thesis
    unfolding cib_process_upgrade_server_def Let_def cv vv uv rejection_notice_def
    using assms
    by (cases "pcmk__search_node_caches E (crm_element_value (req a) PCMK__XA_SRC)")
      (simp_all add: up)
qed

lemma upgrade_instruction_validation_rc [simp]:
  "upgrade_instruction (E\<lparr>update_validation := u\<rparr>) request v = upgrade_instruction E request v"
  "upgrade_rejection (E\<lparr>update_validation := u\<rparr>) request r = upgrade_rejection E request r"
  by (simp_all add: upgrade_instruction_def upgrade_rejection_def crm_xml_add_int_def)

lemmas upgrade_eval_defs =
  cib_process_upgrade_server_def upgrade_instruction_def upgrade_rejection_def
  crm_xml_add_int_def live_schema_version_def validated_version_def validation_rc_def
  rejection_notice_def

text \<open>
  C4, as the spec states it, promises success whenever Phase 1 finds a newer schema.
  On a primary in legacy mode the handler applies the upgrade itself and returns what
  \<^verbatim>\<open>cib_process_upgrade\<close> returns: on the example node, with a primitive that fails
  with -203, the request has no maximum-schema field, validation finds version 2 above
  the live version 0, and the result is not success.
\<close>

theorem upgrade_direct_apply_not_success:
  "crm_element_value (req example_call) F_CIB_SCHEMA_MAX = None \<and>
   live_schema_version
     (example_env\<lparr>cib_legacy_mode := True, cib_process_upgrade := (\<lambda>a. (- 203, None, None))\<rparr>)
     example_call <
   validated_version
     (example_env\<lparr>cib_legacy_mode := True, cib_process_upgrade := (\<lambda>a. (- 203, None, None))\<rparr>)
     example_call \<and>
   rc (fst (cib_process_upgrade_server
     (example_env\<lparr>cib_legacy_mode := True, cib_process_upgrade := (\<lambda>a. (- 203, None, None))\<rparr>)
     example_call (initial_state\<lparr>based_is_primary := True\<rparr>))) \<noteq> pcmk_ok"
  by (simp add: upgrade_eval_defs eval_defs)

text \<open>
  C4, amended. In Phase 1 (the request has no maximum-schema field), whenever
  validation finds a version above the live document's, the handler builds the upgrade
  instruction (operation "upgrade", the name of that version as maximum schema, the
  requesting host as delegation origin, the client and call identifiers of the
  request) and does exactly one of two things with it. On a primary in legacy mode it
  calls \<^verbatim>\<open>cib_process_upgrade\<close> once on the instruction, broadcasts nothing, and
  its result and outputs are the primitive's. Otherwise it sends exactly one message,
  the broadcast of the instruction, calls no primitive, and the result is success.
  On any result other than success nothing is broadcast, the process is not
  terminated, the rejection is logged, and the origin is looked up in the membership
  cache: if it is found, exactly one message is sent, to the origin, a reply envelope
  with the result code as decimal text, the reply marker and the identifiers of the
  request; if it is not found, nothing is sent. The state is never changed.
\<close>

theorem upgrade_server_phase1:
  "hdr_ok E \<Longrightarrow> crm_element_value (req a) F_CIB_SCHEMA_MAX = None \<Longrightarrow>
   (case cib_process_upgrade_server E a st of
      (out, st') \<Rightarrow>
        st' = st \<and>
        (live_schema_version E a < validated_version E a \<longrightarrow>
           (\<exists>up. xname up = Name ''cib_process_upgrade_server'' \<and>
                 crm_element_value up PCMK__XA_T = Some (T_CIB E) \<and>
                 crm_element_value up PCMK__XA_CIB_OP = Some (PCMK__CIB_REQUEST_UPGRADE E) \<and>
                 crm_element_value up F_CIB_SCHEMA_MAX =
                   get_schema_name E (validated_version E a) \<and>
                 crm_element_value up PCMK__XA_CIB_DELEGATED_FROM =
                   crm_element_value (req a) PCMK__XA_SRC \<and>
                 crm_element_value up PCMK__XA_CIB_CLIENTID =
                   crm_element_value (req a) PCMK__XA_CIB_CLIENTID \<and>
                 crm_element_value up PCMK__XA_CIB_CALLOPT =
                   crm_element_value (req a) PCMK__XA_CIB_CALLOPT \<and>
                 crm_element_value up PCMK__XA_CIB_CALLID =
                   crm_element_value (req a) PCMK__XA_CIB_CALLID \<and>
                 (if cib_legacy_mode E \<and> based_is_primary st then
                    filter is_delegated (effects out) =
                      [Delegated ''cib_process_upgrade'' (a\<lparr>req := up, answer := None\<rparr>)] \<and>
                    filter is_broadcast (effects out) = [] \<and>
                    (rc out, new_result_cib out, new_answer out) =
                      cib_process_upgrade E (a\<lparr>req := up, answer := None\<rparr>)
                  else
                    filter is_sent (effects out) = [Sent None crm_msg_cib up False] \<and>
                    filter is_delegated (effects out) = [] \<and>
                    rc out = pcmk_ok \<and> new_result_cib out = result_cib a \<and>
                    new_answer out = None))) \<and>
        (rc out \<noteq> pcmk_ok \<longrightarrow>
           filter is_broadcast (effects out) = [] \<and>
           filter is_terminate (effects out) = [] \<and>
           rejection_notice \<in> set (effects out) \<and>
           (case pcmk__search_node_caches E (crm_element_value (req a) PCMK__XA_SRC) of
              None \<Rightarrow> no_message (effects out)
            | Some origin \<Rightarrow>
                (\<exists>reply.
                   filter is_sent (effects out) = [Sent (Some origin) crm_msg_cib reply True] \<and>
                   xname reply = Name ''cib_process_upgrade_server'' \<and>
                   crm_element_value reply PCMK__XA_T = Some (T_CIB E) \<and>
                   crm_element_value reply PCMK__XA_CIB_OP = Some (PCMK__CIB_REQUEST_UPGRADE E) \<and>
                   crm_element_value reply PCMK__XA_CIB_UPGRADE_RC = Some (pcmk__itoa E (rc out)) \<and>
                   crm_element_value reply PCMK__XA_CIB_ISREPLYTO =
                     crm_element_value (req a) PCMK__XA_SRC \<and>
                   crm_element_value reply PCMK__XA_CIB_DELEGATED_FROM =
                     crm_element_value (req a) PCMK__XA_SRC \<and>
                   crm_element_value reply PCMK__XA_CIB_CLIENTID =
                     crm_element_value (req a) PCMK__XA_CIB_CLIENTID \<and>
                   crm_element_value reply PCMK__XA_CIB_CALLOPT =
                     crm_element_value (req a) PCMK__XA_CIB_CALLOPT \<and>
                   crm_element_value reply PCMK__XA_CIB_CALLID =
                     crm_element_value (req a) PCMK__XA_CIB_CALLID))))"
proof -
  assume h: "hdr_ok E" and p1: "crm_element_value (req a) F_CIB_SCHEMA_MAX = None"
  obtain r2 rcib2 ans2 where
    up: "cib_process_upgrade E
           (a\<lparr>req := upgrade_instruction E (req a) (validated_version E a), answer := None\<rparr>) =
           (r2, rcib2, ans2)"
    by (cases "cib_process_upgrade E
           (a\<lparr>req := upgrade_instruction E (req a) (validated_version E a), answer := None\<rparr>)")
      auto
  have nz: "- pcmk_err_schema_unchanged E \<noteq> pcmk_ok"
    using h by (simp add: hdr_ok_def pcmk_ok_def)
  show ?thesis
    unfolding upgrade_server_phase1_unfold [OF p1] Let_def
    using nz
    by (cases "pcmk__search_node_caches E (crm_element_value (req a) PCMK__XA_SRC)")
      (auto simp: up no_message_def rejection_notice_def upgrade_instruction_fields
        upgrade_rejection_fields
        intro!: exI [where x = "upgrade_instruction E (req a) (validated_version E a)"])
qed

theorem upgrade_server_phase1_witness:
  "hdr_ok example_env \<and>
   crm_element_value (req example_call) F_CIB_SCHEMA_MAX = None \<and>
   live_schema_version example_env example_call < validated_version example_env example_call \<and>
   rc (fst (cib_process_upgrade_server example_env example_call initial_state)) = pcmk_ok \<and>
   filter is_sent (effects (fst (cib_process_upgrade_server example_env example_call initial_state))) =
     [Sent None crm_msg_cib (upgrade_instruction example_env (req example_call) 2) False] \<and>
   rc (fst (cib_process_upgrade_server
     (example_env\<lparr>cib_legacy_mode := True, cib_process_upgrade := (\<lambda>a. (- 203, None, None))\<rparr>)
     example_call (initial_state\<lparr>based_is_primary := True\<rparr>))) = - 203 \<and>
   filter is_sent (effects (fst (cib_process_upgrade_server
     (example_env\<lparr>cib_legacy_mode := True, cib_process_upgrade := (\<lambda>a. (- 203, None, None))\<rparr>)
     example_call (initial_state\<lparr>based_is_primary := True\<rparr>)))) =
     [Sent (Some \<lparr>uname = ''node2''\<rparr>) crm_msg_cib
        (upgrade_rejection example_env (req example_call) (- 203)) True]"
proof -
  have h: "hdr_ok (example_env\<lparr>cib_legacy_mode := l, cib_process_upgrade := f\<rparr>)" for l f
    using example_env_ok by (simp add: hdr_ok_def)
  have p1: "crm_element_value (req example_call) F_CIB_SCHEMA_MAX = None"
    by (simp add: eval_defs)
  show ?thesis
    using example_env_ok p1
      upgrade_server_phase1 [OF example_env_ok p1, where st = initial_state]
      upgrade_server_phase1 [OF h [where l = True and f = "\<lambda>a. (- 203, None, None)"] p1,
        where st = "initial_state\<lparr>based_is_primary := True\<rparr>"]
    by (simp add: upgrade_eval_defs eval_defs)
qed

text \<open>
  C10. In Phase 1, when validation finds a version above the live document's, the
  result code of \<^verbatim>\<open>update_validation\<close> is masked: replacing it by any other code
  \<open>vrc\<close> changes nothing of what the handler returns, sends or logs, and unless the
  upgrade is applied directly (primary in legacy mode) the result is success. When no
  newer version is found, a validation failure is the result of the handler and is
  what the reply to the origin carries, and a validation success becomes
  \<^verbatim>\<open>-pcmk_err_schema_unchanged\<close>.
\<close>

theorem upgrade_validation_rc_masked:
  "crm_element_value (req a) F_CIB_SCHEMA_MAX = None \<Longrightarrow>
   (if live_schema_version E a < validated_version E a then
      cib_process_upgrade_server
        (E\<lparr>update_validation :=
             (\<lambda>x best m transform to_logs.
                (vrc, snd (update_validation E x best m transform to_logs)))\<rparr>) a st =
      cib_process_upgrade_server E a st \<and>
      (cib_legacy_mode E \<and> based_is_primary st \<or>
       rc (fst (cib_process_upgrade_server E a st)) = pcmk_ok)
    else
      rc (fst (cib_process_upgrade_server E a st)) =
        (if validation_rc E a = pcmk_ok then - pcmk_err_schema_unchanged E
         else validation_rc E a) \<and>
      (validation_rc E a \<noteq> pcmk_ok \<longrightarrow>
         (case pcmk__search_node_caches E (crm_element_value (req a) PCMK__XA_SRC) of
            None \<Rightarrow> no_message (effects (fst (cib_process_upgrade_server E a st)))
          | Some origin \<Rightarrow>
              (\<exists>reply.
                 filter is_sent (effects (fst (cib_process_upgrade_server E a st))) =
                   [Sent (Some origin) crm_msg_cib reply True] \<and>
                 crm_element_value reply PCMK__XA_CIB_UPGRADE_RC =
                   Some (pcmk__itoa E (validation_rc E a))))))"
proof -
  assume p1: "crm_element_value (req a) F_CIB_SCHEMA_MAX = None"
  let ?E' = "E\<lparr>update_validation :=
             (\<lambda>x best m transform to_logs.
                (vrc, snd (update_validation E x best m transform to_logs)))\<rparr>"
  have same: "live_schema_version ?E' a = live_schema_version E a"
    "validated_version ?E' a = validated_version E a"
    by (simp_all add: live_schema_version_def validated_version_def split: option.split)
  show ?thesis
  proof (cases "live_schema_version E a < validated_version E a")
    case True
    then show ?thesis
      unfolding upgrade_server_phase1_unfold [OF p1] same Let_def
      by (cases "pcmk__search_node_caches E (crm_element_value (req a) PCMK__XA_SRC)")
        (simp_all add: split_beta)
  next
    case False
    then show ?thesis
      unfolding upgrade_server_phase1_unfold [OF p1] Let_def
      by (cases "pcmk__search_node_caches E (crm_element_value (req a) PCMK__XA_SRC)")
        (auto simp: no_message_def rejection_notice_def upgrade_rejection_fields)
  qed
qed

theorem upgrade_validation_rc_masked_witness:
  "crm_element_value (req example_call) F_CIB_SCHEMA_MAX = None \<and>
   cib_process_upgrade_server
     (example_env\<lparr>update_validation :=
        (\<lambda>x best m transform to_logs.
           (- 203, snd (update_validation example_env x best m transform to_logs)))\<rparr>)
     example_call initial_state =
   cib_process_upgrade_server example_env example_call initial_state \<and>
   rc (fst (cib_process_upgrade_server example_env example_call initial_state)) = pcmk_ok \<and>
   rc (fst (cib_process_upgrade_server
     (example_env\<lparr>update_validation := (\<lambda>x best m transform to_logs. (- 203, x, 0))\<rparr>)
     example_call initial_state)) = - 203 \<and>
   rc (fst (cib_process_upgrade_server
     (example_env\<lparr>update_validation := (\<lambda>x best m transform to_logs. (0, x, 0))\<rparr>)
     example_call initial_state)) = - 211"
proof -
  have p1: "crm_element_value (req example_call) F_CIB_SCHEMA_MAX = None"
    by (simp add: eval_defs)
  show ?thesis
    using p1
      upgrade_validation_rc_masked [OF p1, where E = example_env and st = initial_state
        and vrc = "- 203"]
      upgrade_validation_rc_masked [OF p1,
        where E = "example_env\<lparr>update_validation := (\<lambda>x best m transform to_logs. (- 203, x, 0))\<rparr>"
        and st = initial_state and vrc = 0]
      upgrade_validation_rc_masked [OF p1,
        where E = "example_env\<lparr>update_validation := (\<lambda>x best m transform to_logs. (0, x, 0))\<rparr>"
        and st = initial_state and vrc = 0]
    by (simp add: upgrade_eval_defs eval_defs)
qed

subsection \<open>Listing schemas\<close>






end
